theory Spec2Isabelle
  imports Complex_Main
begin

section \<open>The database of server.js\<close>

text \<open>
  The server keeps no state of its own: every route handler of \<^verbatim>\<open>server.js\<close> runs SQL
  statements against one PostgreSQL database. The model is a record of the tables that
  \<^verbatim>\<open>createTables\<close> declares, each table a list of rows in insertion order, and each
  handler a function from the database before the request to the response and the
  database after it.

  Conventions of the model:
  \<^item> a \<^verbatim>\<open>TEXT\<close> column or a text field of a request body is a \<open>string\<close>, the UTF-8
    bytes of the JavaScript string; the only nullable column the handlers ever write
    \<^verbatim>\<open>NULL\<close> into, \<^verbatim>\<open>access_requests.message\<close>, is a \<open>string option\<close>;
  \<^item> an \<^verbatim>\<open>INTEGER\<close> or \<^verbatim>\<open>SERIAL\<close> column is an \<open>int\<close>, a \<^verbatim>\<open>SERIAL\<close> column draws its
    value from a counter kept beside the table;
  \<^item> \<^verbatim>\<open>CURRENT_TIMESTAMP\<close> is an argument \<open>now\<close> of the handler that inserts a row;
  \<^item> a statement fails, and \<^verbatim>\<open>await query(...)\<close> throws into the \<^verbatim>\<open>catch\<close> block of
    the handler, when a parameter that comes from the request is not a value of its
    column's type, or when an \<^verbatim>\<open>INSERT\<close> violates the primary key of
    \<^verbatim>\<open>access_requests\<close>; a parameter that was read from the database is a value of
    its column's type; the connection to the database does not fail.
\<close>

type_synonym timestamp = nat

record student_row =
  s_id :: int
  s_name :: string
  s_code :: string
  s_school_id :: int

record grade_row =
  g_id :: int
  g_student_id :: string
  g_subject :: string
  g_score :: real
  g_timestamp :: timestamp

record absence_row =
  a_id :: int
  a_student_id :: string
  a_date :: string
  a_reason :: string
  a_timestamp :: timestamp

record notification_row =
  n_id :: int
  n_type :: string
  n_title :: string
  n_message :: string
  n_target_id :: string
  n_timestamp :: timestamp

record access_request =
  ar_student_id :: int
  ar_device_id :: string
  ar_status :: string
  ar_message :: "string option"
  ar_request_date :: timestamp

record store =
  students :: "student_row list"
  students_seq :: int
  grades :: "grade_row list"
  grades_seq :: int
  absences :: "absence_row list"
  absences_seq :: int
  notifications :: "notification_row list"
  notifications_seq :: int
  access_requests :: "access_request list"

text \<open>The database right after \<^verbatim>\<open>createTables\<close> on a fresh server: every table empty.\<close>

definition empty_store :: store where
  "empty_store =
     \<lparr>students = [], students_seq = 1, grades = [], grades_seq = 1,
      absences = [], absences_seq = 1, notifications = [], notifications_seq = 1,
      access_requests = []\<rparr>"

subsection \<open>The values PostgreSQL accepts as parameters\<close>

text \<open>
  The errors a statement of the server can end with: a second row for a primary key
  (SQLSTATE 23505), an integer outside the 32 bits of \<^verbatim>\<open>INTEGER\<close> or a number outside
  the range of \<^verbatim>\<open>REAL\<close> (22003), and a text with the byte 0x00, which no
  \<^verbatim>\<open>TEXT\<close> value can hold (22021).
\<close>

datatype db_error = UniqueViolation | NumericValueOutOfRange | CharacterNotInRepertoire

definition pg_int4 :: "int \<Rightarrow> bool" where
  "pg_int4 n = (- 2147483648 \<le> n \<and> n \<le> 2147483647)"

definition pg_text :: "string \<Rightarrow> bool" where
  "pg_text s = (CHR 0x00 \<notin> set s)"

subsection \<open>The SQL statements\<close>

text \<open>
  A \<^verbatim>\<open>SELECT\<close> gives its rows, in the table's order unless the statement orders them;
  an \<^verbatim>\<open>UPDATE\<close> or \<^verbatim>\<open>DELETE\<close> gives the number of rows it touched (the
  \<^verbatim>\<open>rowCount\<close> of the driver's result) and the database after it. A statement with a
  parameter from the request gives an error instead when PostgreSQL refuses the
  parameter, and then changes nothing. Each statement runs on its own: no handler but
  the roster import opens a transaction.
\<close>

text \<open>\<^verbatim>\<open>result.rows[0]\<close>: the first row, or \<^verbatim>\<open>undefined\<close> (here \<open>None\<close>).\<close>

definition first_row :: "'a list \<Rightarrow> 'a option" where
  "first_row rows = (case rows of [] \<Rightarrow> None | r # _ \<Rightarrow> Some r)"

text \<open>
  \<^verbatim>\<open>SELECT id, name FROM students WHERE code = $1\<close>, with the code of the login
  request.
\<close>

definition select_student_by_code :: "store \<Rightarrow> string \<Rightarrow> db_error + student_row list" where
  "select_student_by_code db code =
     (if pg_text code then Inr (filter (\<lambda>s. s_code s = code) (students db))
      else Inl CharacterNotInRepertoire)"

text \<open>
  \<^verbatim>\<open>SELECT code FROM students WHERE id = $1\<close>, with the id of the path of the request.
\<close>

definition select_student_by_id :: "store \<Rightarrow> int \<Rightarrow> db_error + student_row list" where
  "select_student_by_id db sid =
     (if pg_int4 sid then Inr (filter (\<lambda>s. s_id s = sid) (students db))
      else Inl NumericValueOutOfRange)"

text \<open>
  \<^verbatim>\<open>SELECT device_id, status, message FROM access_requests WHERE student_id = $1\<close>, the
  statement of the login route, with the id of the student row just read.
\<close>

definition select_access_request :: "store \<Rightarrow> int \<Rightarrow> access_request list" where
  "select_access_request db sid =
     filter (\<lambda>r. ar_student_id r = sid) (access_requests db)"

text \<open>
  \<^verbatim>\<open>SELECT status, message FROM access_requests WHERE student_id = $1\<close>, the statement
  of the student's data route, with the id of the path of the request.
\<close>

definition select_access_status :: "store \<Rightarrow> int \<Rightarrow> db_error + access_request list" where
  "select_access_status db sid =
     (if pg_int4 sid then Inr (filter (\<lambda>r. ar_student_id r = sid) (access_requests db))
      else Inl NumericValueOutOfRange)"

text \<open>
  \<^verbatim>\<open>INSERT INTO access_requests (student_id, device_id, status) VALUES ($1, $2, 'PENDING')\<close>,
  with the id of the student row just read and the device id of the request.
  \<^verbatim>\<open>student_id\<close> is the table's \<^verbatim>\<open>PRIMARY KEY\<close>: the statement fails when a row with
  that key is there. \<^verbatim>\<open>message\<close> has no default and is \<^verbatim>\<open>NULL\<close>; \<^verbatim>\<open>request_date\<close>
  defaults to the current time.
\<close>

definition insert_access_request ::
  "store \<Rightarrow> int \<Rightarrow> string \<Rightarrow> timestamp \<Rightarrow> db_error + store" where
  "insert_access_request db sid device now =
     (if \<not> pg_text device then Inl CharacterNotInRepertoire
      else if sid \<in> ar_student_id ` set (access_requests db) then Inl UniqueViolation
      else Inr (db\<lparr>access_requests := access_requests db @
             [\<lparr>ar_student_id = sid, ar_device_id = device, ar_status = ''PENDING'',
               ar_message = None, ar_request_date = now\<rparr>]\<rparr>))"

text \<open>
  \<^verbatim>\<open>UPDATE access_requests SET status = 'APPROVED', message = NULL WHERE student_id = $1\<close>,
  with the id of the request body.
\<close>

definition update_approved :: "store \<Rightarrow> int \<Rightarrow> db_error + nat \<times> store" where
  "update_approved db sid =
     (if \<not> pg_int4 sid then Inl NumericValueOutOfRange
      else Inr
        (length (filter (\<lambda>r. ar_student_id r = sid) (access_requests db)),
         db\<lparr>access_requests :=
              map (\<lambda>r. if ar_student_id r = sid
                        then r\<lparr>ar_status := ''APPROVED'', ar_message := None\<rparr> else r)
                  (access_requests db)\<rparr>))"

text \<open>
  \<^verbatim>\<open>UPDATE access_requests SET status = 'REJECTED', message = $1 WHERE student_id = $2\<close>,
  with the reason and the id of the request body.
\<close>

definition update_rejected :: "store \<Rightarrow> string \<Rightarrow> int \<Rightarrow> db_error + nat \<times> store" where
  "update_rejected db reason sid =
     (if \<not> pg_text reason then Inl CharacterNotInRepertoire
      else if \<not> pg_int4 sid then Inl NumericValueOutOfRange
      else Inr
        (length (filter (\<lambda>r. ar_student_id r = sid) (access_requests db)),
         db\<lparr>access_requests :=
              map (\<lambda>r. if ar_student_id r = sid
                        then r\<lparr>ar_status := ''REJECTED'', ar_message := Some reason\<rparr> else r)
                  (access_requests db)\<rparr>))"

text \<open>
  \<^verbatim>\<open>DELETE FROM access_requests WHERE student_id = $1\<close>, with the id of the request
  body.
\<close>

definition delete_access_request :: "store \<Rightarrow> int \<Rightarrow> db_error + nat \<times> store" where
  "delete_access_request db sid =
     (if \<not> pg_int4 sid then Inl NumericValueOutOfRange
      else Inr
        (length (filter (\<lambda>r. ar_student_id r = sid) (access_requests db)),
         db\<lparr>access_requests :=
              filter (\<lambda>r. ar_student_id r \<noteq> sid) (access_requests db)\<rparr>))"

text \<open>
  \<^verbatim>\<open>SELECT type, title, message, timestamp FROM notifications
  WHERE target_id = $1 OR target_id = 'ALL' ORDER BY id DESC\<close>, with the code of the
  student row just read.
\<close>

definition select_notifications ::
  "store \<Rightarrow> string \<Rightarrow> (string \<times> string \<times> string \<times> timestamp) list" where
  "select_notifications db code =
     map (\<lambda>n. (n_type n, n_title n, n_message n, n_timestamp n))
       (rev (sort_key n_id
          (filter (\<lambda>n. n_target_id n = code \<or> n_target_id n = ''ALL'') (notifications db))))"

text \<open>
  \<^verbatim>\<open>SELECT date, reason FROM absences WHERE student_id = $1\<close>, with the same code.
\<close>

definition select_absences :: "store \<Rightarrow> string \<Rightarrow> (string \<times> string) list" where
  "select_absences db code =
     map (\<lambda>a. (a_date a, a_reason a)) (filter (\<lambda>a. a_student_id a = code) (absences db))"

text \<open>
  \<^verbatim>\<open>SELECT subject, score FROM grades WHERE student_id = $1\<close>, with the same code.
\<close>

definition select_grades :: "store \<Rightarrow> string \<Rightarrow> (string \<times> real) list" where
  "select_grades db code =
     map (\<lambda>g. (g_subject g, g_score g)) (filter (\<lambda>g. g_student_id g = code) (grades db))"

text \<open>
  \<^verbatim>\<open>INSERT INTO students (name, code, school_id) VALUES ($1, $2, $3)
  ON CONFLICT (code) DO NOTHING\<close>, with the name of a row of the sheet, a generated code
  and the school 1. The \<^verbatim>\<open>SERIAL\<close> counter advances also when the row is dropped by
  the conflict clause, and not when a parameter is refused.
\<close>

definition insert_student :: "store \<Rightarrow> string \<Rightarrow> string \<Rightarrow> int \<Rightarrow> db_error + store" where
  "insert_student db name code school =
     (if \<not> pg_text name \<or> \<not> pg_text code then Inl CharacterNotInRepertoire
      else if \<not> pg_int4 school then Inl NumericValueOutOfRange
      else if code \<in> s_code ` set (students db)
      then Inr (db\<lparr>students_seq := students_seq db + 1\<rparr>)
      else Inr (db\<lparr>students := students db @
                 [\<lparr>s_id = students_seq db, s_name = name, s_code = code,
                   s_school_id = school\<rparr>],
              students_seq := students_seq db + 1\<rparr>))"

text \<open>
  \<^verbatim>\<open>INSERT INTO grades (student_id, subject, score) VALUES ($1, $2, $3)\<close>, with the
  fields of the request body. The score is the single-precision value PostgreSQL reads
  from the parameter, \<open>None\<close> when the parameter is outside the range of \<^verbatim>\<open>REAL\<close>.
\<close>

definition insert_grade ::
  "store \<Rightarrow> string \<Rightarrow> string \<Rightarrow> real option \<Rightarrow> timestamp \<Rightarrow> db_error + store" where
  "insert_grade db sid subject score now =
     (if \<not> pg_text sid \<or> \<not> pg_text subject then Inl CharacterNotInRepertoire
      else case score of
        None \<Rightarrow> Inl NumericValueOutOfRange
      | Some x \<Rightarrow>
          Inr (db\<lparr>grades := grades db @
                 [\<lparr>g_id = grades_seq db, g_student_id = sid, g_subject = subject,
                   g_score = x, g_timestamp = now\<rparr>],
               grades_seq := grades_seq db + 1\<rparr>))"

text \<open>
  \<^verbatim>\<open>INSERT INTO absences (student_id, date, reason) VALUES ($1, $2, $3)\<close>, with the
  fields of the request body.
\<close>

definition insert_absence ::
  "store \<Rightarrow> string \<Rightarrow> string \<Rightarrow> string \<Rightarrow> timestamp \<Rightarrow> db_error + store" where
  "insert_absence db sid date reason now =
     (if \<not> pg_text sid \<or> \<not> pg_text date \<or> \<not> pg_text reason
      then Inl CharacterNotInRepertoire
      else Inr (db\<lparr>absences := absences db @
                  [\<lparr>a_id = absences_seq db, a_student_id = sid, a_date = date,
                    a_reason = reason, a_timestamp = now\<rparr>],
                absences_seq := absences_seq db + 1\<rparr>))"

text \<open>
  \<^verbatim>\<open>INSERT INTO notifications (type, title, message, target_id) VALUES ($1, $2, $3, $4)\<close>,
  with the fields of the request body.
\<close>

definition insert_notification ::
  "store \<Rightarrow> string \<Rightarrow> string \<Rightarrow> string \<Rightarrow> string \<Rightarrow> timestamp \<Rightarrow> db_error + store" where
  "insert_notification db type title message target now =
     (if \<not> pg_text type \<or> \<not> pg_text title \<or> \<not> pg_text message \<or> \<not> pg_text target
      then Inl CharacterNotInRepertoire
      else Inr (db\<lparr>notifications := notifications db @
                  [\<lparr>n_id = notifications_seq db, n_type = type, n_title = title,
                    n_message = message, n_target_id = target, n_timestamp = now\<rparr>],
                notifications_seq := notifications_seq db + 1\<rparr>))"

section \<open>The login route\<close>

text \<open>
  The body of a successful login, \<^verbatim>\<open>student: { id, full_name, secret_code, status }\<close>.
  The key \<^verbatim>\<open>message\<close> is in the object only on the \<^verbatim>\<open>REJECTED\<close> branch: \<open>None\<close> is the
  object without the key, \<open>Some m\<close> the object with the column's value \<open>m\<close> (itself
  \<open>None\<close> for \<^verbatim>\<open>NULL\<close>).
\<close>

record login_student =
  ls_id :: int
  ls_full_name :: string
  ls_secret_code :: string
  ls_status :: string
  ls_message :: "string option option"

text \<open>
  The three shapes of the login response: \<^verbatim>\<open>{ success: true, student }\<close>,
  \<^verbatim>\<open>{ success: false, message }\<close> with HTTP status 200, and the same shape with HTTP status
  500 from the \<^verbatim>\<open>catch\<close> block.
\<close>

datatype login_response =
    LoginSuccess login_student
  | LoginFailure string
  | LoginServerError string

definition msg_invalid_code :: string where
  "msg_invalid_code = ''Code matricule incorrect''"

text \<open>\<^verbatim>\<open>"Ce code est deja lie a un autre telephone."\<close> with the accents of the source.\<close>

definition msg_device_mismatch :: string where
  "msg_device_mismatch =
     ''Ce code est d'' @ [CHR 0xC3, CHR 0xA9] @ ''j'' @ [CHR 0xC3, CHR 0xA0] @ '' li''
       @ [CHR 0xC3, CHR 0xA9] @ '' '' @ [CHR 0xC3, CHR 0xA0] @ '' un autre t''
       @ [CHR 0xC3, CHR 0xA9] @ ''l'' @ [CHR 0xC3, CHR 0xA9] @ ''phone.''"

definition msg_login_error :: string where
  "msg_login_error = ''Erreur serveur lors de la connexion.''"

text \<open>
  \<^verbatim>\<open>app.post('/api/login', ...)\<close>, the operation the specification calls
  \<^verbatim>\<open>attemptLogin(code, deviceId)\<close>.
\<close>

definition api_login ::
  "store \<Rightarrow> string \<Rightarrow> string \<Rightarrow> timestamp \<Rightarrow> login_response \<times> store" where
  "api_login db code device_id now =
     (case select_student_by_code db code of
        Inl err \<Rightarrow> (LoginServerError msg_login_error, db)
      | Inr studentResult \<Rightarrow>
     (case first_row studentResult of
        None \<Rightarrow> (LoginFailure msg_invalid_code, db)
      | Some student \<Rightarrow>
          (case first_row (select_access_request db (s_id student)) of
             None \<Rightarrow>
               (case insert_access_request db (s_id student) device_id now of
                  Inl err \<Rightarrow> (LoginServerError msg_login_error, db)
                | Inr db' \<Rightarrow>
                    (LoginSuccess
                       \<lparr>ls_id = s_id student, ls_full_name = s_name student,
                        ls_secret_code = code, ls_status = ''PENDING'',
                        ls_message = None\<rparr>, db'))
           | Some request \<Rightarrow>
               if ar_device_id request = device_id then
                 if ar_status request = ''REJECTED'' then
                   (LoginSuccess
                      \<lparr>ls_id = s_id student, ls_full_name = s_name student,
                       ls_secret_code = code, ls_status = ''REJECTED'',
                       ls_message = Some (ar_message request)\<rparr>, db)
                 else
                   (LoginSuccess
                      \<lparr>ls_id = s_id student, ls_full_name = s_name student,
                       ls_secret_code = code, ls_status = ar_status request,
                       ls_message = None\<rparr>, db)
               else (LoginFailure msg_device_mismatch, db))))"

section \<open>The student's data route\<close>

text \<open>
  The body of \<^verbatim>\<open>GET /api/my-grades/:id\<close>. The approved answer is
  \<^verbatim>\<open>{ locked, notifications, absences, grades }\<close>, the locked one has the keys
  \<^verbatim>\<open>rejected\<close> and \<^verbatim>\<open>reject_reason\<close> too; \<open>None\<close> is a key that the JSON body does
  not have, which is also what \<^verbatim>\<open>res.json\<close> makes of a key whose value is
  \<^verbatim>\<open>undefined\<close>.
\<close>

record student_view =
  v_locked :: bool
  v_rejected :: "bool option"
  v_reject_reason :: "string option"
  v_notifications :: "(string \<times> string \<times> string \<times> timestamp) list"
  v_absences :: "(string \<times> string) list"
  v_grades :: "(string \<times> real) list"

text \<open>
  The answers of the route: the data, \<^verbatim>\<open>{ error }\<close> with HTTP status 200 for an id
  that is no student's, and \<^verbatim>\<open>{ error }\<close> with HTTP status 500 from the \<^verbatim>\<open>catch\<close>
  block.
\<close>

datatype view_response =
    ViewData student_view
  | ViewNotFound string
  | ViewServerError string

text \<open>\<^verbatim>\<open>"Eleve introuvable"\<close> with the accents of the source.\<close>

definition msg_student_not_found :: string where
  "msg_student_not_found =
     [CHR 0xC3, CHR 0x89] @ ''l'' @ [CHR 0xC3, CHR 0xA8] @ ''ve introuvable''"

text \<open>
  \<^verbatim>\<open>"Erreur serveur lors de la recuperation des donnees."\<close> with the accents of the
  source.
\<close>

definition msg_view_error :: string where
  "msg_view_error =
     ''Erreur serveur lors de la r'' @ [CHR 0xC3, CHR 0xA9] @ ''cup''
       @ [CHR 0xC3, CHR 0xA9] @ ''ration des donn'' @ [CHR 0xC3, CHR 0xA9] @ ''es.''"

text \<open>
  \<^verbatim>\<open>access && e\<close> for a row \<^verbatim>\<open>access\<close> that may be \<^verbatim>\<open>undefined\<close> and a boolean
  \<^verbatim>\<open>e\<close> about it: \<^verbatim>\<open>undefined\<close> (here \<open>None\<close>) when there is no row, the boolean
  otherwise.
\<close>

definition js_and_row :: "'a option \<Rightarrow> ('a \<Rightarrow> bool) \<Rightarrow> bool option" where
  "js_and_row access e = (case access of None \<Rightarrow> None | Some a \<Rightarrow> Some (e a))"

text \<open>What an \<^verbatim>\<open>if\<close> makes of such a value: only \<^verbatim>\<open>true\<close> takes the branch.\<close>

definition js_truthy :: "bool option \<Rightarrow> bool" where
  "js_truthy v = (v = Some True)"

text \<open>
  \<^verbatim>\<open>(access && access.message) ? access.message : ''\<close>: the message when there is a row
  and its message is neither \<^verbatim>\<open>NULL\<close> nor the empty string, the empty string otherwise.
\<close>

definition js_message_or_empty :: "access_request option \<Rightarrow> string" where
  "js_message_or_empty access =
     (case access of
        None \<Rightarrow> []
      | Some a \<Rightarrow> (case ar_message a of None \<Rightarrow> [] | Some m \<Rightarrow> if m \<noteq> [] then m else []))"

text \<open>
  \<^verbatim>\<open>app.get('/api/my-grades/:id', ...)\<close>, the operation the specification calls
  \<^verbatim>\<open>fetchStudentView(studentId)\<close>. The tables \<^verbatim>\<open>notifications\<close>, \<^verbatim>\<open>absences\<close> and
  \<^verbatim>\<open>grades\<close> are read by the student's code, not by the id.
\<close>

definition api_my_grades :: "store \<Rightarrow> int \<Rightarrow> view_response \<times> store" where
  "api_my_grades db studentId =
     (case select_access_status db studentId of
        Inl err \<Rightarrow> (ViewServerError msg_view_error, db)
      | Inr accessResult \<Rightarrow>
     (let access = first_row accessResult;
          isApproved = js_and_row access (\<lambda>a. ar_status a = ''APPROVED'');
          isRejected = js_and_row access (\<lambda>a. ar_status a = ''REJECTED'');
          rejectionMsg = js_message_or_empty access
      in case select_student_by_id db studentId of
           Inl err \<Rightarrow> (ViewServerError msg_view_error, db)
         | Inr studentResult \<Rightarrow>
        (case first_row studentResult of
           None \<Rightarrow> (ViewNotFound msg_student_not_found, db)
         | Some student \<Rightarrow>
             (let code = s_code student;
                  notifs = select_notifications db code;
                  absences = select_absences db code
              in if js_truthy isApproved then
                   (ViewData
                      \<lparr>v_locked = False, v_rejected = None, v_reject_reason = None,
                       v_notifications = notifs, v_absences = absences,
                       v_grades = select_grades db code\<rparr>, db)
                 else
                   (ViewData
                      \<lparr>v_locked = True, v_rejected = isRejected,
                       v_reject_reason = Some rejectionMsg,
                       v_notifications = notifs, v_absences = absences,
                       v_grades = []\<rparr>, db)))))"

section \<open>The admin routes\<close>

text \<open>
  \<^verbatim>\<open>{ success: true }\<close>, or \<^verbatim>\<open>{ success: false }\<close> with HTTP status 500 from the
  \<^verbatim>\<open>catch\<close> block. No handler reads the row count of its statement.
\<close>

datatype admin_response = AdminSuccess | AdminServerError

text \<open>\<^verbatim>\<open>app.post('/api/admin/approve', ...)\<close>: \<^verbatim>\<open>approve(studentId)\<close>.\<close>

definition api_admin_approve :: "store \<Rightarrow> int \<Rightarrow> admin_response \<times> store" where
  "api_admin_approve db student_id =
     (case update_approved db student_id of
        Inl err \<Rightarrow> (AdminServerError, db)
      | Inr (n, db') \<Rightarrow> (AdminSuccess, db'))"

text \<open>\<^verbatim>\<open>app.post('/api/admin/reject', ...)\<close>: \<^verbatim>\<open>reject(studentId, reason)\<close>.\<close>

definition api_admin_reject :: "store \<Rightarrow> int \<Rightarrow> string \<Rightarrow> admin_response \<times> store" where
  "api_admin_reject db student_id reason =
     (case update_rejected db reason student_id of
        Inl err \<Rightarrow> (AdminServerError, db)
      | Inr (n, db') \<Rightarrow> (AdminSuccess, db'))"

text \<open>\<^verbatim>\<open>app.post('/api/admin/reset', ...)\<close>: \<^verbatim>\<open>reset(studentId)\<close>.\<close>

definition api_admin_reset :: "store \<Rightarrow> int \<Rightarrow> admin_response \<times> store" where
  "api_admin_reset db student_id =
     (case delete_access_request db student_id of
        Inl err \<Rightarrow> (AdminServerError, db)
      | Inr (n, db') \<Rightarrow> (AdminSuccess, db'))"

section \<open>The other routes and the server as a whole\<close>

text \<open>
  \<^verbatim>\<open>app.post('/upload', ...)\<close>. The argument is the sheet after the two things the
  handler computes per row outside the database: the name (the first of the columns
  \<^verbatim>\<open>Nom\<close>, \<^verbatim>\<open>nom\<close>, \<^verbatim>\<open>Name\<close>, \<^verbatim>\<open>name\<close>, \<^verbatim>\<open>Nom Prenom\<close> that is there, else
  \<^verbatim>\<open>"Inconnu"\<close>) and the code \<^verbatim>\<open>generateStudentCode()\<close> draws for it. The loop over
  the rows runs inside one transaction and stops at the first statement that fails,
  with the error and the database at that point.
\<close>

fun upload_rows ::
  "(string \<times> string) list \<Rightarrow> nat \<Rightarrow> store \<Rightarrow> db_error \<times> store + nat \<times> store" where
  "upload_rows [] count db = Inr (count, db)"
| "upload_rows ((name, newCode) # data) count db =
     (if name \<noteq> ''Inconnu'' then
        (case insert_student db name newCode 1 of
           Inl err \<Rightarrow> Inl (err, db)
         | Inr db' \<Rightarrow> upload_rows data (count + 1) db')
      else upload_rows data count db)"

text \<open>
  The answer is the count after \<^verbatim>\<open>COMMIT\<close>, or HTTP status 500 after \<^verbatim>\<open>ROLLBACK\<close>,
  which takes back the rows of the transaction but not the values drawn from the
  \<^verbatim>\<open>SERIAL\<close> counter. A request without a file is answered before any statement
  runs, as the empty sheet is here.
\<close>

datatype upload_response = UploadSuccess nat | UploadServerError

definition upload :: "store \<Rightarrow> (string \<times> string) list \<Rightarrow> upload_response \<times> store" where
  "upload db data =
     (case upload_rows data 0 db of
        Inl (err, db') \<Rightarrow> (UploadServerError, db\<lparr>students_seq := students_seq db'\<rparr>)
      | Inr (count, db') \<Rightarrow> (UploadSuccess count, db'))"

text \<open>
  The three routes that record data answer \<^verbatim>\<open>{ message: "OK" }\<close>, or HTTP status 500
  from the \<^verbatim>\<open>catch\<close> block; only the database after them matters here.
\<close>

definition api_grades ::
  "store \<Rightarrow> string \<Rightarrow> string \<Rightarrow> real option \<Rightarrow> timestamp \<Rightarrow> store" where
  "api_grades db student_id subject score now =
     (case insert_grade db student_id subject score now of Inl err \<Rightarrow> db | Inr db' \<Rightarrow> db')"

definition api_absences ::
  "store \<Rightarrow> string \<Rightarrow> string \<Rightarrow> string \<Rightarrow> timestamp \<Rightarrow> store" where
  "api_absences db student_id date reason now =
     (case insert_absence db student_id date reason now of Inl err \<Rightarrow> db | Inr db' \<Rightarrow> db')"

definition api_notifications ::
  "store \<Rightarrow> string \<Rightarrow> string \<Rightarrow> string \<Rightarrow> string \<Rightarrow> timestamp \<Rightarrow> store" where
  "api_notifications db type title message target_id now =
     (case insert_notification db type title message target_id now of
        Inl err \<Rightarrow> db | Inr db' \<Rightarrow> db')"

text \<open>
  One constructor per route of the server, with the fields of the request that reach
  the database.
\<close>

datatype request =
    Upload "(string \<times> string) list"
  | Login string string timestamp
  | MyGrades int
  | AdminRequests
  | AdminApprove int
  | AdminReject int string
  | AdminReset int
  | GetStudents
  | PostGrade string string "real option" timestamp
  | PostAbsence string string string timestamp
  | PostNotification string string string string timestamp

text \<open>
  The database after a request. \<^verbatim>\<open>GET /api/admin/requests\<close> and \<^verbatim>\<open>GET /api/students\<close>
  run one \<^verbatim>\<open>SELECT\<close> without parameters each.
\<close>

fun serve :: "request \<Rightarrow> store \<Rightarrow> store" where
  "serve (Upload data) db = snd (upload db data)"
| "serve (Login code device_id now) db = snd (api_login db code device_id now)"
| "serve (MyGrades studentId) db = snd (api_my_grades db studentId)"
| "serve AdminRequests db = db"
| "serve (AdminApprove student_id) db = snd (api_admin_approve db student_id)"
| "serve (AdminReject student_id reason) db = snd (api_admin_reject db student_id reason)"
| "serve (AdminReset student_id) db = snd (api_admin_reset db student_id)"
| "serve GetStudents db = db"
| "serve (PostGrade student_id subject score now) db =
     api_grades db student_id subject score now"
| "serve (PostAbsence student_id date reason now) db =
     api_absences db student_id date reason now"
| "serve (PostNotification type title message target_id now) db =
     api_notifications db type title message target_id now"

text \<open>The databases the server can be in: the empty one, and what a request makes of one.\<close>

inductive reachable :: "store \<Rightarrow> bool" where
  reachable_init: "reachable empty_store"
| reachable_serve: "reachable db \<Longrightarrow> reachable (serve req db)"

text \<open>The database after a list of requests, served one after the other.\<close>

fun serve_all :: "request list \<Rightarrow> store \<Rightarrow> store" where
  "serve_all [] db = db"
| "serve_all (req # reqs) db = serve_all reqs (serve req db)"

text \<open>
  What every database the server can be in satisfies: the primary key of
  \<^verbatim>\<open>access_requests\<close> holds, and an approved request carries no message.
\<close>

definition store_inv :: "store \<Rightarrow> bool" where
  "store_inv db =
     (distinct (map ar_student_id (access_requests db))
      \<and> list_all (\<lambda>r. ar_status r = ''APPROVED'' \<longrightarrow> ar_message r = None) (access_requests db))"

section \<open>Two logins at the same time\<close>

text \<open>
  The handler of \<^verbatim>\<open>/api/login\<close> awaits three statements in turn, and the server takes
  another request while one waits for the database. A login in progress is at one of
  four places: before \<^verbatim>\<open>SELECT ... FROM students\<close>, before
  \<^verbatim>\<open>SELECT ... FROM access_requests\<close> (with the student row in hand), before the
  \<^verbatim>\<open>INSERT\<close> (no request row was found), or done, with its response. One step runs
  the next statement against the database and is atomic, as a statement outside a
  transaction is.
\<close>

datatype login_task =
    SelectStudent
  | SelectRequest student_row
  | InsertRequest student_row
  | Responded login_response

fun login_step ::
  "string \<Rightarrow> string \<Rightarrow> timestamp \<Rightarrow> login_task \<Rightarrow> store \<Rightarrow> login_task \<times> store" where
  "login_step code device_id now SelectStudent db =
     (case select_student_by_code db code of
        Inl err \<Rightarrow> (Responded (LoginServerError msg_login_error), db)
      | Inr studentResult \<Rightarrow>
          (case first_row studentResult of
             None \<Rightarrow> (Responded (LoginFailure msg_invalid_code), db)
           | Some student \<Rightarrow> (SelectRequest student, db)))"
| "login_step code device_id now (SelectRequest student) db =
     (case first_row (select_access_request db (s_id student)) of
        None \<Rightarrow> (InsertRequest student, db)
      | Some request \<Rightarrow>
          if ar_device_id request = device_id then
            if ar_status request = ''REJECTED'' then
              (Responded (LoginSuccess
                 \<lparr>ls_id = s_id student, ls_full_name = s_name student,
                  ls_secret_code = code, ls_status = ''REJECTED'',
                  ls_message = Some (ar_message request)\<rparr>), db)
            else
              (Responded (LoginSuccess
                 \<lparr>ls_id = s_id student, ls_full_name = s_name student,
                  ls_secret_code = code, ls_status = ar_status request,
                  ls_message = None\<rparr>), db)
          else (Responded (LoginFailure msg_device_mismatch), db))"
| "login_step code device_id now (InsertRequest student) db =
     (case insert_access_request db (s_id student) device_id now of
        Inl err \<Rightarrow> (Responded (LoginServerError msg_login_error), db)
      | Inr db' \<Rightarrow>
          (Responded (LoginSuccess
             \<lparr>ls_id = s_id student, ls_full_name = s_name student,
              ls_secret_code = code, ls_status = ''PENDING'',
              ls_message = None\<rparr>), db'))"
| "login_step code device_id now (Responded response) db = (Responded response, db)"

text \<open>A login that nothing interrupts: its three steps in a row.\<close>

definition login_alone ::
  "store \<Rightarrow> string \<Rightarrow> string \<Rightarrow> timestamp \<Rightarrow> login_task \<times> store" where
  "login_alone db code device_id now =
     (case login_step code device_id now SelectStudent db of (t1, db1) \<Rightarrow>
      case login_step code device_id now t1 db1 of (t2, db2) \<Rightarrow>
        login_step code device_id now t2 db2)"

text \<open>
  Two clients log in with the same code. A schedule says whose statement runs next
  (\<open>True\<close>: the first client's); a client that has its response does nothing more.
\<close>

record login_client =
  c_device_id :: string
  c_now :: timestamp

fun race_step ::
  "string \<Rightarrow> login_client \<Rightarrow> login_client \<Rightarrow> bool \<Rightarrow>
   login_task \<times> login_task \<times> store \<Rightarrow> login_task \<times> login_task \<times> store" where
  "race_step code c1 c2 first (t1, t2, db) =
     (if first then
        (case login_step code (c_device_id c1) (c_now c1) t1 db of (t1', db') \<Rightarrow> (t1', t2, db'))
      else
        (case login_step code (c_device_id c2) (c_now c2) t2 db of (t2', db') \<Rightarrow> (t1, t2', db')))"

fun race_run ::
  "string \<Rightarrow> login_client \<Rightarrow> login_client \<Rightarrow> bool list \<Rightarrow>
   login_task \<times> login_task \<times> store \<Rightarrow> login_task \<times> login_task \<times> store" where
  "race_run code c1 c2 [] cfg = cfg"
| "race_run code c1 c2 (first # schedule) cfg =
     race_run code c1 c2 schedule (race_step code c1 c2 first cfg)"

text \<open>The row the first login inserts, its answer, and the database with that row.\<close>

definition pending_row :: "int \<Rightarrow> string \<Rightarrow> timestamp \<Rightarrow> access_request" where
  "pending_row sid device now =
     \<lparr>ar_student_id = sid, ar_device_id = device, ar_status = ''PENDING'',
      ar_message = None, ar_request_date = now\<rparr>"

definition pending_answer :: "student_row \<Rightarrow> string \<Rightarrow> login_response" where
  "pending_answer student code =
     LoginSuccess \<lparr>ls_id = s_id student, ls_full_name = s_name student,
       ls_secret_code = code, ls_status = ''PENDING'', ls_message = None\<rparr>"

definition bind_device :: "store \<Rightarrow> int \<Rightarrow> string \<Rightarrow> timestamp \<Rightarrow> store" where
  "bind_device db sid device now =
     db\<lparr>access_requests := access_requests db @ [pending_row sid device now]\<rparr>"

text \<open>How far a login has come, for the proof that every login gets its response.\<close>

definition task_rank :: "login_task \<Rightarrow> nat" where
  "task_rank t = (case t of SelectStudent \<Rightarrow> 0 | SelectRequest _ \<Rightarrow> 1
                   | InsertRequest _ \<Rightarrow> 2 | Responded _ \<Rightarrow> 3)"

text \<open>
  The configurations two racing first logins can be in: nobody has inserted yet and
  both are before their response; or one client has inserted and has the pending
  answer, and the other is still on its way or was turned away.
\<close>

definition race_inv ::
  "store \<Rightarrow> string \<Rightarrow> student_row \<Rightarrow> login_client \<Rightarrow> login_client \<Rightarrow>
   login_task \<times> login_task \<times> store \<Rightarrow> bool" where
  "race_inv db code student c1 c2 cfg =
     (case cfg of (t1, t2, db') \<Rightarrow>
        (let before = {SelectStudent, SelectRequest student, InsertRequest student};
             lost = {Responded (LoginFailure msg_device_mismatch),
                     Responded (LoginServerError msg_login_error)}
         in (db' = db \<and> t1 \<in> before \<and> t2 \<in> before)
          \<or> (db' = bind_device db (s_id student) (c_device_id c1) (c_now c1)
               \<and> t1 = Responded (pending_answer student code) \<and> t2 \<in> before \<union> lost)
          \<or> (db' = bind_device db (s_id student) (c_device_id c2) (c_now c2)
               \<and> t2 = Responded (pending_answer student code) \<and> t1 \<in> before \<union> lost)))"

section \<open>A small database\<close>

text \<open>
  Two students from a roster import, a grade, an absence and two notifications, and no
  access request yet.
\<close>

definition amina :: student_row where
  "amina = \<lparr>s_id = 1, s_name = ''Amina'', s_code = ''AB-1234'', s_school_id = 1\<rparr>"

definition bilal :: student_row where
  "bilal = \<lparr>s_id = 2, s_name = ''Bilal'', s_code = ''CD-5678'', s_school_id = 1\<rparr>"

definition demo_requests :: "request list" where
  "demo_requests =
     [Upload [(''Amina'', ''AB-1234''), (''Inconnu'', ''XY-0000''), (''Bilal'', ''CD-5678'')],
      PostGrade ''AB-1234'' ''Maths'' (Some 15) 10,
      PostAbsence ''AB-1234'' ''2024-01-10'' ''Malade'' 11,
      PostNotification ''INFO'' ''Rentree'' ''Bienvenue'' ''ALL'' 12,
      PostNotification ''NOTE'' ''Maths'' ''Nouvelle note'' ''AB-1234'' 13]"

definition demo_store :: store where
  "demo_store =
     \<lparr>students = [amina, bilal], students_seq = 3,
      grades = [\<lparr>g_id = 1, g_student_id = ''AB-1234'', g_subject = ''Maths'',
                 g_score = 15, g_timestamp = 10\<rparr>],
      grades_seq = 2,
      absences = [\<lparr>a_id = 1, a_student_id = ''AB-1234'', a_date = ''2024-01-10'',
                   a_reason = ''Malade'', a_timestamp = 11\<rparr>],
      absences_seq = 2,
      notifications =
        [\<lparr>n_id = 1, n_type = ''INFO'', n_title = ''Rentree'', n_message = ''Bienvenue'',
          n_target_id = ''ALL'', n_timestamp = 12\<rparr>,
         \<lparr>n_id = 2, n_type = ''NOTE'', n_title = ''Maths'', n_message = ''Nouvelle note'',
          n_target_id = ''AB-1234'', n_timestamp = 13\<rparr>],
      notifications_seq = 3,
      access_requests = []\<rparr>"

text \<open>The same database after the first login of Amina, from the device phone-1.\<close>

definition demo_bound :: store where
  "demo_bound =
     demo_store\<lparr>access_requests :=
       [\<lparr>ar_student_id = 1, ar_device_id = ''phone-1'', ar_status = ''PENDING'',
         ar_message = None, ar_request_date = 20\<rparr>]\<rparr>"

text \<open>
  A text with the byte 0x00 in it, as the JSON string \<^verbatim>\<open>"a\u0000b"\<close> of a request body
  gives.
\<close>

definition nul_text :: string where
  "nul_text = ''a'' @ [CHR 0x00] @ ''b''"

text \<open>Two clients that log in at the same time, from two phones.\<close>

definition phone1 :: login_client where
  "phone1 = \<lparr>c_device_id = ''phone-1'', c_now = 20\<rparr>"

definition phone2 :: login_client where
  "phone2 = \<lparr>c_device_id = ''phone-2'', c_now = 21\<rparr>"

section \<open>Lemmas about the statements and the handlers\<close>

lemmas select_defs =
  select_student_by_code_def select_student_by_id_def select_access_request_def
  select_access_status_def select_notifications_def select_absences_def select_grades_def

lemma first_row_append:
  "first_row xs = Some r \<Longrightarrow> first_row (xs @ ys) = Some r"
  by (cases xs) (simp_all add: first_row_def)

lemma first_row_Nil_iff: "first_row xs = None \<longleftrightarrow> xs = []"
  by (cases xs) (simp_all add: first_row_def)

lemma first_row_Some_mem: "first_row (filter P xs) = Some r \<Longrightarrow> r \<in> set xs \<and> P r"
proof -
  assume a: "first_row (filter P xs) = Some r"
  then obtain ys where "filter P xs = r # ys"
    by (cases "filter P xs") (simp_all add: first_row_def)
  then have "r \<in> set (filter P xs)" by simp
  then show ?thesis by simp
qed

lemma first_row_map: "first_row (map f xs) = map_option f (first_row xs)"
  by (cases xs) (simp_all add: first_row_def)

lemma first_row_filter_map:
  assumes "first_row (filter P xs) = Some r" and "\<And>x. P (f x) = P x"
  shows "first_row (filter P (map f xs)) = Some (f r)"
proof -
  have "filter P (map f xs) = map f (filter P xs)"
    using assms(2) by (induction xs) simp_all
  then show ?thesis using assms(1)
    by (cases "filter P xs") (simp_all add: first_row_def)
qed

lemma first_row_filter_filter:
  assumes "first_row (filter P xs) = Some r" and "\<And>x. P x \<Longrightarrow> Q x"
  shows "first_row (filter P (filter Q xs)) = Some r"
proof -
  have "filter P (filter Q xs) = filter P xs"
    using assms(2) by (induction xs) auto
  then show ?thesis using assms(1) by simp
qed

lemma select_student_by_code_Inr:
  "select_student_by_code db code = Inr rows \<longleftrightarrow>
     pg_text code \<and> rows = filter (\<lambda>s. s_code s = code) (students db)"
  by (auto simp: select_student_by_code_def)

lemma select_student_by_code_Inl:
  "(\<exists>err. select_student_by_code db code = Inl err) \<longleftrightarrow> \<not> pg_text code"
  by (auto simp: select_student_by_code_def)

lemma insert_access_request_fresh:
  "pg_text device \<Longrightarrow> select_access_request db sid = [] \<Longrightarrow>
   insert_access_request db sid device now =
     Inr (db\<lparr>access_requests := access_requests db @
             [\<lparr>ar_student_id = sid, ar_device_id = device, ar_status = ''PENDING'',
               ar_message = None, ar_request_date = now\<rparr>]\<rparr>)"
  by (auto simp: insert_access_request_def select_access_request_def filter_empty_conv)

lemma insert_access_request_taken:
  "select_access_request db sid \<noteq> [] \<Longrightarrow>
   \<exists>err. insert_access_request db sid device now = Inl err"
  by (auto simp: insert_access_request_def select_access_request_def filter_empty_conv)

lemma insert_access_request_refused:
  "\<not> pg_text device \<Longrightarrow>
   insert_access_request db sid device now = Inl CharacterNotInRepertoire"
  by (simp add: insert_access_request_def)

lemma api_login_first:
  assumes "select_student_by_code db code = Inr rows"
      and "first_row rows = Some student"
      and "select_access_request db (s_id student) = []"
      and "pg_text D"
  shows "api_login db code D now =
      (LoginSuccess \<lparr>ls_id = s_id student, ls_full_name = s_name student,
          ls_secret_code = code, ls_status = ''PENDING'', ls_message = None\<rparr>,
       db\<lparr>access_requests := access_requests db @
             [\<lparr>ar_student_id = s_id student, ar_device_id = D, ar_status = ''PENDING'',
               ar_message = None, ar_request_date = now\<rparr>]\<rparr>)"
  using assms
  by (simp add: api_login_def insert_access_request_fresh first_row_def)

lemma api_login_first_refused:
  assumes "select_student_by_code db code = Inr rows"
      and "first_row rows = Some student"
      and "select_access_request db (s_id student) = []"
      and "\<not> pg_text D"
  shows "api_login db code D now = (LoginServerError msg_login_error, db)"
  using assms
  by (simp add: api_login_def insert_access_request_refused first_row_def)

lemma api_login_mismatch:
  assumes "select_student_by_code db code = Inr rows"
      and "first_row rows = Some student"
      and "first_row (select_access_request db (s_id student)) = Some request"
      and "ar_device_id request \<noteq> D'"
  shows "api_login db code D' now = (LoginFailure msg_device_mismatch, db)"
  using assms by (simp add: api_login_def)

lemma api_login_same_device:
  assumes "select_student_by_code db code = Inr rows"
      and "first_row rows = Some student"
      and "first_row (select_access_request db (s_id student)) = Some request"
      and "ar_device_id request = D"
  shows "api_login db code D now =
     (LoginSuccess \<lparr>ls_id = s_id student, ls_full_name = s_name student,
          ls_secret_code = code, ls_status = ar_status request,
          ls_message = (if ar_status request = ''REJECTED'' then Some (ar_message request) else None)\<rparr>, db)"
  using assms by (simp add: api_login_def)

lemma api_login_store:
  "snd (api_login db code D now) = db \<or>
   (\<exists>row. snd (api_login db code D now) = db\<lparr>access_requests := access_requests db @ [row]\<rparr>
      \<and> ar_status row = ''PENDING'' \<and> ar_message row = None
      \<and> select_access_request db (ar_student_id row) = [])"
  by (auto simp: api_login_def insert_access_request_def select_access_request_def first_row_def
      filter_empty_conv split: option.splits list.splits sum.splits if_splits)

lemma api_login_students: "students (snd (api_login db code D now)) = students db"
  using api_login_store [of db code D now] by auto

lemma insert_student_frame:
  assumes "insert_student db name code school = Inr db'"
  shows "access_requests db' = access_requests db \<and> grades db' = grades db
       \<and> absences db' = absences db \<and> notifications db' = notifications db
       \<and> (\<exists>new. students db' = students db @ new)"
  using assms by (auto simp: insert_student_def split: if_splits)

lemma upload_rows_frame:
  "(upload_rows data count db = Inr (c, db') \<longrightarrow>
      access_requests db' = access_requests db \<and> grades db' = grades db
      \<and> absences db' = absences db \<and> notifications db' = notifications db
      \<and> (\<exists>new. students db' = students db @ new))"
proof (induction data count db arbitrary: c db' rule: upload_rows.induct)
  case (1 count db)
  then show ?case by simp
next
  case (2 name newCode data count db)
  show ?case
  proof (cases "name = ''Inconnu''")
    case True
    then show ?thesis using "2.IH"(2) by simp
  next
    case False
    show ?thesis
    proof (cases "insert_student db name newCode 1")
      case (Inl err)
      then show ?thesis using False by simp
    next
      case (Inr db1)
      from insert_student_frame [OF Inr]
      obtain new1 where f1: "access_requests db1 = access_requests db" "grades db1 = grades db"
        "absences db1 = absences db" "notifications db1 = notifications db"
        "students db1 = students db @ new1" by blast
      show ?thesis
      proof
        assume run: "upload_rows ((name, newCode) # data) count db = Inr (c, db')"
        then have "upload_rows data (count + 1) db1 = Inr (c, db')"
          using False Inr by simp
        with "2.IH"(1) [OF False Inr, of c db']
        obtain new2 where "access_requests db' = access_requests db1" "grades db' = grades db1"
          "absences db' = absences db1" "notifications db' = notifications db1"
          "students db' = students db1 @ new2" by blast
        with f1 show "access_requests db' = access_requests db \<and> grades db' = grades db
          \<and> absences db' = absences db \<and> notifications db' = notifications db
          \<and> (\<exists>new. students db' = students db @ new)" by simp
      qed
    qed
  qed
qed

lemma upload_frame:
  "access_requests (snd (upload db data)) = access_requests db
   \<and> grades (snd (upload db data)) = grades db
   \<and> absences (snd (upload db data)) = absences db
   \<and> notifications (snd (upload db data)) = notifications db
   \<and> (\<exists>new. students (snd (upload db data)) = students db @ new)"
proof (cases "upload_rows data 0 db")
  case (Inl a)
  then show ?thesis by (cases a) (simp add: upload_def)
next
  case (Inr b)
  obtain c db' where b: "b = (c, db')" by (cases b)
  from upload_rows_frame [of data 0 db c db'] Inr b show ?thesis
    by (simp add: upload_def)
qed

lemma serve_students: "\<exists>new. students (serve req db) = students db @ new"
proof (cases req)
  case (Upload data)
  then show ?thesis using upload_frame [of db data] by simp
next
  case (Login code D now)
  then show ?thesis by (simp add: api_login_students)
qed (simp_all add: api_my_grades_def api_admin_approve_def api_admin_reject_def
       api_admin_reset_def update_approved_def update_rejected_def delete_access_request_def
       api_grades_def api_absences_def api_notifications_def
       insert_grade_def insert_absence_def insert_notification_def Let_def
       split: option.splits sum.splits)

lemma serve_keeps_student:
  assumes "select_student_by_code db code = Inr rows" and "first_row rows = Some student"
  shows "\<exists>rows'. select_student_by_code (serve req db) code = Inr rows'
           \<and> first_row rows' = Some student"
proof -
  obtain new where "students (serve req db) = students db @ new"
    using serve_students by blast
  then show ?thesis
    using assms by (auto simp: select_student_by_code_def first_row_append split: if_splits)
qed

lemma serve_keeps_binding:
  assumes "first_row (select_access_request db sid) = Some r"
      and "req \<noteq> AdminReset sid"
  shows "\<exists>r'. first_row (select_access_request (serve req db) sid) = Some r'
              \<and> ar_device_id r' = ar_device_id r"
proof (cases req)
  case (Upload data)
  then show ?thesis using assms(1) upload_frame [of db data]
    by (simp add: select_access_request_def)
next
  case (Login code D now)
  from api_login_store [of db code D now] show ?thesis
  proof
    assume "snd (api_login db code D now) = db"
    then show ?thesis using assms(1) Login by simp
  next
    assume "\<exists>row. snd (api_login db code D now) = db\<lparr>access_requests := access_requests db @ [row]\<rparr>
      \<and> ar_status row = ''PENDING'' \<and> ar_message row = None
      \<and> select_access_request db (ar_student_id row) = []"
    then obtain row where
      "snd (api_login db code D now) = db\<lparr>access_requests := access_requests db @ [row]\<rparr>"
      by blast
    then show ?thesis using assms(1) Login
      by (simp add: select_access_request_def first_row_append)
  qed
next
  case (AdminApprove k)
  show ?thesis
  proof (cases "pg_int4 k")
    case False
    then show ?thesis using assms(1) AdminApprove
      by (simp add: api_admin_approve_def update_approved_def)
  next
    case True
    have "first_row (filter (\<lambda>r. ar_student_id r = sid)
          (map (\<lambda>r. if ar_student_id r = k
                     then r\<lparr>ar_status := ''APPROVED'', ar_message := None\<rparr> else r)
               (access_requests db)))
        = Some ((\<lambda>r. if ar_student_id r = k
                     then r\<lparr>ar_status := ''APPROVED'', ar_message := None\<rparr> else r) r)"
      using assms(1) unfolding select_access_request_def
      by (rule first_row_filter_map) simp
    then show ?thesis using AdminApprove True
      by (simp add: api_admin_approve_def update_approved_def select_access_request_def)
  qed
next
  case (AdminReject k reason)
  show ?thesis
  proof (cases "pg_int4 k \<and> pg_text reason")
    case False
    then show ?thesis using assms(1) AdminReject
      by (auto simp: api_admin_reject_def update_rejected_def)
  next
    case True
    have "first_row (filter (\<lambda>r. ar_student_id r = sid)
          (map (\<lambda>r. if ar_student_id r = k
                     then r\<lparr>ar_status := ''REJECTED'', ar_message := Some reason\<rparr> else r)
               (access_requests db)))
        = Some ((\<lambda>r. if ar_student_id r = k
                     then r\<lparr>ar_status := ''REJECTED'', ar_message := Some reason\<rparr> else r) r)"
      using assms(1) unfolding select_access_request_def
      by (rule first_row_filter_map) simp
    then show ?thesis using AdminReject True
      by (simp add: api_admin_reject_def update_rejected_def select_access_request_def)
  qed
next
  case (AdminReset k)
  then have ne: "k \<noteq> sid" using assms(2) by simp
  show ?thesis
  proof (cases "pg_int4 k")
    case False
    then show ?thesis using assms(1) AdminReset
      by (simp add: api_admin_reset_def delete_access_request_def)
  next
    case True
    have "first_row (filter (\<lambda>r. ar_student_id r = sid)
          (filter (\<lambda>r. ar_student_id r \<noteq> k) (access_requests db))) = Some r"
      using assms(1) unfolding select_access_request_def
      by (rule first_row_filter_filter) (use ne in simp)
    then show ?thesis using AdminReset True
      by (simp add: api_admin_reset_def delete_access_request_def select_access_request_def)
  qed
qed (use assms(1) in \<open>simp_all add: api_my_grades_def select_access_request_def
       api_grades_def api_absences_def api_notifications_def
       insert_grade_def insert_absence_def insert_notification_def Let_def
       split: option.splits sum.splits\<close>)

lemma serve_all_keeps_student:
  "select_student_by_code db code = Inr rows \<Longrightarrow> first_row rows = Some student \<Longrightarrow>
   \<exists>rows'. select_student_by_code (serve_all reqs db) code = Inr rows'
           \<and> first_row rows' = Some student"
proof (induction reqs arbitrary: db rows)
  case Nil
  then show ?case by simp
next
  case (Cons req reqs)
  from serve_keeps_student [OF Cons.prems, of req]
  obtain rows1 where "select_student_by_code (serve req db) code = Inr rows1"
    "first_row rows1 = Some student" by blast
  from Cons.IH [OF this] show ?case by simp
qed

lemma serve_all_keeps_binding:
  "first_row (select_access_request db sid) = Some r \<Longrightarrow> AdminReset sid \<notin> set reqs \<Longrightarrow>
   \<exists>r'. first_row (select_access_request (serve_all reqs db) sid) = Some r'
              \<and> ar_device_id r' = ar_device_id r"
proof (induction reqs arbitrary: db r)
  case Nil
  then show ?case by simp
next
  case (Cons req reqs)
  then have "req \<noteq> AdminReset sid" by auto
  from serve_keeps_binding [OF Cons.prems(1) this]
  obtain r1 where r1: "first_row (select_access_request (serve req db) sid) = Some r1"
    "ar_device_id r1 = ar_device_id r" by blast
  from Cons.IH [OF r1(1)] Cons.prems(2) r1(2) show ?case by auto
qed

section \<open>Lemmas about two logins at the same time\<close>

lemma login_alone_is_api_login:
  "login_alone db code device_id now =
     (Responded (fst (api_login db code device_id now)), snd (api_login db code device_id now))"
  by (simp add: login_alone_def api_login_def split: option.splits sum.splits)

lemma bind_device_students [simp]:
  "select_student_by_code (bind_device db sid d n) code = select_student_by_code db code"
  by (simp add: bind_device_def select_student_by_code_def)

lemma bind_device_select [simp]:
  "select_access_request db sid = [] \<Longrightarrow>
   select_access_request (bind_device db sid d n) sid = [pending_row sid d n]"
  by (simp add: bind_device_def select_access_request_def pending_row_def)

lemma insert_fresh_bind:
  "pg_text d \<Longrightarrow> select_access_request db sid = [] \<Longrightarrow>
   insert_access_request db sid d n = Inr (bind_device db sid d n)"
  by (simp add: insert_access_request_fresh bind_device_def pending_row_def)

lemma insert_bound_fails:
  "select_access_request db sid = [] \<Longrightarrow>
   \<exists>err. insert_access_request (bind_device db sid d n) sid d' n' = Inl err"
  by (rule insert_access_request_taken) simp

lemma login_step_fresh:
  assumes "select_student_by_code db code = Inr rows" and "first_row rows = Some student"
      and "select_access_request db (s_id student) = []"
  shows "login_step code d n SelectStudent db = (SelectRequest student, db)"
    and "login_step code d n (SelectRequest student) db = (InsertRequest student, db)"
    and "pg_text d \<Longrightarrow> login_step code d n (InsertRequest student) db =
           (Responded (pending_answer student code), bind_device db (s_id student) d n)"
  using assms by (simp_all add: insert_fresh_bind first_row_def pending_answer_def)

lemma login_step_bound:
  assumes "select_student_by_code db code = Inr rows" and "first_row rows = Some student"
      and "select_access_request db (s_id student) = []"
      and "d \<noteq> d'"
  shows "login_step code d' n' SelectStudent (bind_device db (s_id student) d n) =
           (SelectRequest student, bind_device db (s_id student) d n)"
    and "login_step code d' n' (SelectRequest student) (bind_device db (s_id student) d n) =
           (Responded (LoginFailure msg_device_mismatch), bind_device db (s_id student) d n)"
    and "login_step code d' n' (InsertRequest student) (bind_device db (s_id student) d n) =
           (Responded (LoginServerError msg_login_error), bind_device db (s_id student) d n)"
proof -
  from insert_bound_fails [OF assms(3), of d n d' n']
  obtain err where "insert_access_request (bind_device db (s_id student) d n) (s_id student) d' n'
                     = Inl err" by blast
  then show "login_step code d' n' (InsertRequest student) (bind_device db (s_id student) d n) =
           (Responded (LoginServerError msg_login_error), bind_device db (s_id student) d n)"
    by simp
qed (use assms in \<open>simp_all add: first_row_def pending_row_def\<close>)

lemma race_inv_step:
  assumes resolve: "select_student_by_code db code = Inr rows" "first_row rows = Some student"
      and fresh: "select_access_request db (s_id student) = []"
      and differ: "c_device_id c1 \<noteq> c_device_id c2"
      and valid: "pg_text (c_device_id c1)" "pg_text (c_device_id c2)"
      and inv: "race_inv db code student c1 c2 cfg"
  shows "race_inv db code student c1 c2 (race_step code c1 c2 first cfg)"
proof -
  obtain t1 t2 db' where cfg: "cfg = (t1, t2, db')" by (cases cfg)
  note f1 = login_step_fresh(1,2) [OF resolve fresh] login_step_fresh(3) [OF resolve fresh valid(1)]
  note f2 = login_step_fresh(1,2) [OF resolve fresh] login_step_fresh(3) [OF resolve fresh valid(2)]
  note b12 = login_step_bound [OF resolve fresh differ]
  note b21 = login_step_bound [OF resolve fresh differ [symmetric]]
  from inv consider
      (none) "db' = db" "t1 \<in> {SelectStudent, SelectRequest student, InsertRequest student}"
             "t2 \<in> {SelectStudent, SelectRequest student, InsertRequest student}"
    | (one) "db' = bind_device db (s_id student) (c_device_id c1) (c_now c1)"
            "t1 = Responded (pending_answer student code)"
            "t2 \<in> {SelectStudent, SelectRequest student, InsertRequest student,
                   Responded (LoginFailure msg_device_mismatch),
                   Responded (LoginServerError msg_login_error)}"
    | (two) "db' = bind_device db (s_id student) (c_device_id c2) (c_now c2)"
            "t2 = Responded (pending_answer student code)"
            "t1 \<in> {SelectStudent, SelectRequest student, InsertRequest student,
                   Responded (LoginFailure msg_device_mismatch),
                   Responded (LoginServerError msg_login_error)}"
    unfolding cfg race_inv_def Let_def by auto
  then show ?thesis
  proof cases
    case none
    show ?thesis
    proof (cases first)
      case True
      from none(2) show ?thesis
        using none(1,3) True unfolding cfg race_inv_def Let_def
        by (elim insertE emptyE) (simp_all add: f1 del: login_step.simps(1-3))
    next
      case False
      from none(3) show ?thesis
        using none(1,2) False unfolding cfg race_inv_def Let_def
        by (elim insertE emptyE) (simp_all add: f2 del: login_step.simps(1-3))
    qed
  next
    case one
    show ?thesis
    proof (cases first)
      case True
      then show ?thesis using one unfolding cfg race_inv_def Let_def by auto
    next
      case False
      from one(3) show ?thesis
        using one(1,2) False unfolding cfg race_inv_def Let_def
        by (elim insertE emptyE) (simp_all add: b12 del: login_step.simps(1-3))
    qed
  next
    case two
    show ?thesis
    proof (cases first)
      case False
      then show ?thesis using two unfolding cfg race_inv_def Let_def by auto
    next
      case True
      from two(3) show ?thesis
        using two(1,2) True unfolding cfg race_inv_def Let_def
        by (elim insertE emptyE) (simp_all add: b21 del: login_step.simps(1-3))
    qed
  qed
qed

lemma race_inv_run:
  assumes resolve: "select_student_by_code db code = Inr rows" "first_row rows = Some student"
      and fresh: "select_access_request db (s_id student) = []"
      and differ: "c_device_id c1 \<noteq> c_device_id c2"
      and valid: "pg_text (c_device_id c1)" "pg_text (c_device_id c2)"
  shows "race_inv db code student c1 c2 cfg \<Longrightarrow>
         race_inv db code student c1 c2 (race_run code c1 c2 schedule cfg)"
proof (induction schedule arbitrary: cfg)
  case Nil
  then show ?case by simp
next
  case (Cons first schedule)
  from race_inv_step [OF resolve fresh differ valid Cons.prems]
  have "race_inv db code student c1 c2 (race_step code c1 c2 first cfg)" .
  from Cons.IH [OF this] show ?case by simp
qed

lemma race_inv_init: "race_inv db code student c1 c2 (SelectStudent, SelectStudent, db)"
  by (simp add: race_inv_def)

text \<open>
  Once one client has inserted its row, the other is turned away with the device
  mismatch when its lookup of \<^verbatim>\<open>access_requests\<close> is still to come, and with the server
  error when that lookup is behind it.
\<close>

lemma loser_second_late:
  assumes resolve: "select_student_by_code db code = Inr rows" "first_row rows = Some student"
      and fresh: "select_access_request db (s_id student) = []"
      and differ: "c_device_id c1 \<noteq> c_device_id c2"
  shows "t2 \<in> {SelectStudent, SelectRequest student,
               Responded (LoginFailure msg_device_mismatch)} \<Longrightarrow>
         \<exists>t2'. race_run code c1 c2 schedule
                 (Responded answer, t2,
                  bind_device db (s_id student) (c_device_id c1) (c_now c1)) =
               (Responded answer, t2',
                bind_device db (s_id student) (c_device_id c1) (c_now c1))
             \<and> t2' \<in> {SelectStudent, SelectRequest student,
                        Responded (LoginFailure msg_device_mismatch)}"
proof (induction schedule arbitrary: t2)
  case Nil
  then show ?case by simp
next
  case (Cons first schedule)
  note b = login_step_bound [OF resolve fresh differ]
  show ?case
  proof (cases first)
    case True
    then show ?thesis using Cons.IH [OF Cons.prems] by simp
  next
    case False
    from Cons.prems have
      "\<exists>t2'. login_step code (c_device_id c2) (c_now c2) t2
               (bind_device db (s_id student) (c_device_id c1) (c_now c1)) =
             (t2', bind_device db (s_id student) (c_device_id c1) (c_now c1))
           \<and> t2' \<in> {SelectStudent, SelectRequest student,
                      Responded (LoginFailure msg_device_mismatch)}"
      by (elim insertE emptyE) (simp_all add: b del: login_step.simps(1-3))
    then obtain t2' where st:
      "login_step code (c_device_id c2) (c_now c2) t2
               (bind_device db (s_id student) (c_device_id c1) (c_now c1)) =
             (t2', bind_device db (s_id student) (c_device_id c1) (c_now c1))"
      "t2' \<in> {SelectStudent, SelectRequest student,
                      Responded (LoginFailure msg_device_mismatch)}" by blast
    from Cons.IH [OF st(2)] show ?thesis using False st(1) by simp
  qed
qed

lemma loser_second_early:
  assumes resolve: "select_student_by_code db code = Inr rows" "first_row rows = Some student"
      and fresh: "select_access_request db (s_id student) = []"
      and differ: "c_device_id c1 \<noteq> c_device_id c2"
  shows "t2 \<in> {InsertRequest student, Responded (LoginServerError msg_login_error)} \<Longrightarrow>
         \<exists>t2'. race_run code c1 c2 schedule
                 (Responded answer, t2,
                  bind_device db (s_id student) (c_device_id c1) (c_now c1)) =
               (Responded answer, t2',
                bind_device db (s_id student) (c_device_id c1) (c_now c1))
             \<and> t2' \<in> {InsertRequest student, Responded (LoginServerError msg_login_error)}"
proof (induction schedule arbitrary: t2)
  case Nil
  then show ?case by simp
next
  case (Cons first schedule)
  note b = login_step_bound [OF resolve fresh differ]
  show ?case
  proof (cases first)
    case True
    then show ?thesis using Cons.IH [OF Cons.prems] by simp
  next
    case False
    from Cons.prems have
      "\<exists>t2'. login_step code (c_device_id c2) (c_now c2) t2
               (bind_device db (s_id student) (c_device_id c1) (c_now c1)) =
             (t2', bind_device db (s_id student) (c_device_id c1) (c_now c1))
           \<and> t2' \<in> {InsertRequest student, Responded (LoginServerError msg_login_error)}"
      by (elim insertE emptyE) (simp_all add: b del: login_step.simps(1-3))
    then obtain t2' where st:
      "login_step code (c_device_id c2) (c_now c2) t2
               (bind_device db (s_id student) (c_device_id c1) (c_now c1)) =
             (t2', bind_device db (s_id student) (c_device_id c1) (c_now c1))"
      "t2' \<in> {InsertRequest student, Responded (LoginServerError msg_login_error)}" by blast
    from Cons.IH [OF st(2)] show ?thesis using False st(1) by simp
  qed
qed

lemma loser_first_late:
  assumes resolve: "select_student_by_code db code = Inr rows" "first_row rows = Some student"
      and fresh: "select_access_request db (s_id student) = []"
      and differ: "c_device_id c1 \<noteq> c_device_id c2"
  shows "t1 \<in> {SelectStudent, SelectRequest student,
               Responded (LoginFailure msg_device_mismatch)} \<Longrightarrow>
         \<exists>t1'. race_run code c1 c2 schedule
                 (t1, Responded answer,
                  bind_device db (s_id student) (c_device_id c2) (c_now c2)) =
               (t1', Responded answer,
                bind_device db (s_id student) (c_device_id c2) (c_now c2))
             \<and> t1' \<in> {SelectStudent, SelectRequest student,
                        Responded (LoginFailure msg_device_mismatch)}"
proof (induction schedule arbitrary: t1)
  case Nil
  then show ?case by simp
next
  case (Cons first schedule)
  note b = login_step_bound [OF resolve fresh differ [symmetric]]
  show ?case
  proof (cases first)
    case False
    then show ?thesis using Cons.IH [OF Cons.prems] by simp
  next
    case True
    from Cons.prems have
      "\<exists>t1'. login_step code (c_device_id c1) (c_now c1) t1
               (bind_device db (s_id student) (c_device_id c2) (c_now c2)) =
             (t1', bind_device db (s_id student) (c_device_id c2) (c_now c2))
           \<and> t1' \<in> {SelectStudent, SelectRequest student,
                      Responded (LoginFailure msg_device_mismatch)}"
      by (elim insertE emptyE) (simp_all add: b del: login_step.simps(1-3))
    then obtain t1' where st:
      "login_step code (c_device_id c1) (c_now c1) t1
               (bind_device db (s_id student) (c_device_id c2) (c_now c2)) =
             (t1', bind_device db (s_id student) (c_device_id c2) (c_now c2))"
      "t1' \<in> {SelectStudent, SelectRequest student,
                      Responded (LoginFailure msg_device_mismatch)}" by blast
    from Cons.IH [OF st(2)] show ?thesis using True st(1) by simp
  qed
qed

lemma loser_first_early:
  assumes resolve: "select_student_by_code db code = Inr rows" "first_row rows = Some student"
      and fresh: "select_access_request db (s_id student) = []"
      and differ: "c_device_id c1 \<noteq> c_device_id c2"
  shows "t1 \<in> {InsertRequest student, Responded (LoginServerError msg_login_error)} \<Longrightarrow>
         \<exists>t1'. race_run code c1 c2 schedule
                 (t1, Responded answer,
                  bind_device db (s_id student) (c_device_id c2) (c_now c2)) =
               (t1', Responded answer,
                bind_device db (s_id student) (c_device_id c2) (c_now c2))
             \<and> t1' \<in> {InsertRequest student, Responded (LoginServerError msg_login_error)}"
proof (induction schedule arbitrary: t1)
  case Nil
  then show ?case by simp
next
  case (Cons first schedule)
  note b = login_step_bound [OF resolve fresh differ [symmetric]]
  show ?case
  proof (cases first)
    case False
    then show ?thesis using Cons.IH [OF Cons.prems] by simp
  next
    case True
    from Cons.prems have
      "\<exists>t1'. login_step code (c_device_id c1) (c_now c1) t1
               (bind_device db (s_id student) (c_device_id c2) (c_now c2)) =
             (t1', bind_device db (s_id student) (c_device_id c2) (c_now c2))
           \<and> t1' \<in> {InsertRequest student, Responded (LoginServerError msg_login_error)}"
      by (elim insertE emptyE) (simp_all add: b del: login_step.simps(1-3))
    then obtain t1' where st:
      "login_step code (c_device_id c1) (c_now c1) t1
               (bind_device db (s_id student) (c_device_id c2) (c_now c2)) =
             (t1', bind_device db (s_id student) (c_device_id c2) (c_now c2))"
      "t1' \<in> {InsertRequest student, Responded (LoginServerError msg_login_error)}" by blast
    from Cons.IH [OF st(2)] show ?thesis using True st(1) by simp
  qed
qed

lemma login_step_rank:
  "task_rank (fst (login_step code d n t db)) \<ge> min 3 (Suc (task_rank t))"
  by (cases t) (simp_all add: task_rank_def split: option.splits sum.splits)

lemma race_run_progress1:
  "task_rank (fst cfg) + length (filter (\<lambda>b. b) schedule) \<ge> 3 \<Longrightarrow>
   task_rank (fst (race_run code c1 c2 schedule cfg)) = 3"
proof (induction schedule arbitrary: cfg)
  case Nil
  then show ?case
    by (cases "fst cfg") (simp_all add: task_rank_def)
next
  case (Cons first schedule)
  obtain t1 t2 db' where cfg: "cfg = (t1, t2, db')" by (cases cfg)
  show ?case
  proof (cases first)
    case True
    obtain t1' db'' where st: "login_step code (c_device_id c1) (c_now c1) t1 db' = (t1', db'')"
      by (cases "login_step code (c_device_id c1) (c_now c1) t1 db'")
    from login_step_rank [of t1 code "c_device_id c1" "c_now c1" db'] st
    have "task_rank t1' \<ge> min 3 (Suc (task_rank t1))" by simp
    with Cons.prems True cfg
    have "task_rank (fst (t1', t2, db'')) + length (filter (\<lambda>b. b) schedule) \<ge> 3"
      by auto
    from Cons.IH [OF this] show ?thesis using True cfg st by simp
  next
    case False
    obtain t2' db'' where st: "login_step code (c_device_id c2) (c_now c2) t2 db' = (t2', db'')"
      by (cases "login_step code (c_device_id c2) (c_now c2) t2 db'")
    from Cons.prems False cfg
    have "task_rank (fst (t1, t2', db'')) + length (filter (\<lambda>b. b) schedule) \<ge> 3"
      by auto
    from Cons.IH [OF this] show ?thesis using False cfg st by simp
  qed
qed

lemma race_run_progress2:
  "task_rank (fst (snd cfg)) + length (filter (\<lambda>b. \<not> b) schedule) \<ge> 3 \<Longrightarrow>
   task_rank (fst (snd (race_run code c1 c2 schedule cfg))) = 3"
proof (induction schedule arbitrary: cfg)
  case Nil
  then show ?case
    by (cases "fst (snd cfg)") (simp_all add: task_rank_def)
next
  case (Cons first schedule)
  obtain t1 t2 db' where cfg: "cfg = (t1, t2, db')" by (cases cfg)
  show ?case
  proof (cases first)
    case False
    obtain t2' db'' where st: "login_step code (c_device_id c2) (c_now c2) t2 db' = (t2', db'')"
      by (cases "login_step code (c_device_id c2) (c_now c2) t2 db'")
    from login_step_rank [of t2 code "c_device_id c2" "c_now c2" db'] st
    have "task_rank t2' \<ge> min 3 (Suc (task_rank t2))" by simp
    with Cons.prems False cfg
    have "task_rank (fst (snd (t1, t2', db''))) + length (filter (\<lambda>b. \<not> b) schedule) \<ge> 3"
      by auto
    from Cons.IH [OF this] show ?thesis using False cfg st by simp
  next
    case True
    obtain t1' db'' where st: "login_step code (c_device_id c1) (c_now c1) t1 db' = (t1', db'')"
      by (cases "login_step code (c_device_id c1) (c_now c1) t1 db'")
    from Cons.prems True cfg
    have "task_rank (fst (snd (t1', t2, db''))) + length (filter (\<lambda>b. \<not> b) schedule) \<ge> 3"
      by auto
    from Cons.IH [OF this] show ?thesis using True cfg st by simp
  qed
qed

lemma task_rank_3: "task_rank t = 3 \<longleftrightarrow> (\<exists>r. t = Responded r)"
  by (cases t) (simp_all add: task_rank_def)

section \<open>Lemmas about the server as a whole\<close>

lemmas demo_defs =
  demo_store_def amina_def bilal_def select_defs first_row_def insert_access_request_def
  pg_text_def pg_int4_def

lemma reachable_serve_all: "reachable db \<Longrightarrow> reachable (serve_all reqs db)"
  by (induction reqs arbitrary: db) (simp_all add: reachable_serve)

lemma demo_store_served: "serve_all demo_requests empty_store = demo_store"
  by (simp add: demo_requests_def demo_store_def empty_store_def upload_def insert_student_def
      api_grades_def api_absences_def api_notifications_def
      insert_grade_def insert_absence_def insert_notification_def amina_def bilal_def
      pg_text_def pg_int4_def)

lemma demo_store_reachable: "reachable demo_store"
  using reachable_serve_all [OF reachable_init, of demo_requests]
  by (simp add: demo_store_served)

lemma demo_bound_served: "serve (Login ''AB-1234'' ''phone-1'' 20) demo_store = demo_bound"
  by (simp add: demo_bound_def api_login_def demo_defs)

lemma demo_bound_reachable: "reachable demo_bound"
  using reachable_serve [OF demo_store_reachable, of "Login ''AB-1234'' ''phone-1'' 20"]
  by (simp only: demo_bound_served)

lemmas demo_bound_defs = demo_bound_def demo_defs

lemmas race_demo_defs = phone1_def phone2_def demo_bound_defs

lemma demo_notifications:
  "select_notifications demo_store ''AB-1234'' =
     [(''NOTE'', ''Maths'', ''Nouvelle note'', 13), (''INFO'', ''Rentree'', ''Bienvenue'', 12)]"
  by (simp add: select_notifications_def demo_store_def)

lemma store_inv_login: "store_inv db \<Longrightarrow> store_inv (snd (api_login db code D now))"
proof -
  assume inv: "store_inv db"
  from api_login_store [of db code D now] show ?thesis
  proof
    assume "snd (api_login db code D now) = db"
    then show ?thesis using inv by simp
  next
    assume "\<exists>row. snd (api_login db code D now) = db\<lparr>access_requests := access_requests db @ [row]\<rparr>
      \<and> ar_status row = ''PENDING'' \<and> ar_message row = None
      \<and> select_access_request db (ar_student_id row) = []"
    then obtain row where row:
      "snd (api_login db code D now) = db\<lparr>access_requests := access_requests db @ [row]\<rparr>"
      "ar_message row = None" "select_access_request db (ar_student_id row) = []"
      by blast
    from row(3) have "ar_student_id row \<notin> ar_student_id ` set (access_requests db)"
      by (auto simp: select_access_request_def filter_empty_conv)
    then show ?thesis using inv row(1,2) by (simp add: store_inv_def)
  qed
qed

lemma map_update_keys:
  "ar_student_id \<circ> (\<lambda>r. if ar_student_id r = k then r\<lparr>ar_status := s, ar_message := m\<rparr> else r)
   = ar_student_id"
  by (rule ext) simp

lemma store_inv_serve: "store_inv db \<Longrightarrow> store_inv (serve req db)"
proof (cases req)
  case (Upload data)
  assume "store_inv db"
  then show ?thesis using Upload upload_frame [of db data] by (simp add: store_inv_def)
next
  case (Login code D now)
  assume "store_inv db"
  then show ?thesis using Login by (simp add: store_inv_login)
next
  case (AdminApprove k)
  assume "store_inv db"
  then show ?thesis using AdminApprove
    by (auto simp: store_inv_def api_admin_approve_def update_approved_def map_update_keys
        list_all_iff)
next
  case (AdminReject k reason)
  assume "store_inv db"
  then show ?thesis using AdminReject
    by (auto simp: store_inv_def api_admin_reject_def update_rejected_def map_update_keys
        list_all_iff)
next
  case (AdminReset k)
  assume "store_inv db"
  then show ?thesis using AdminReset
    by (simp add: store_inv_def api_admin_reset_def delete_access_request_def
        distinct_map_filter list_all_iff)
qed (simp_all add: store_inv_def api_my_grades_def api_grades_def api_absences_def
       api_notifications_def insert_grade_def insert_absence_def
       insert_notification_def Let_def split: option.splits sum.splits)

lemma reachable_store_inv: "reachable db \<Longrightarrow> store_inv db"
  by (induction rule: reachable.induct)
     (simp_all add: store_inv_def empty_store_def store_inv_serve [unfolded store_inv_def])

lemma distinct_first_row_all:
  assumes "distinct (map f xs)" and "first_row (filter (\<lambda>x. f x = k) xs) = Some r"
      and "x \<in> set xs" and "f x = k"
  shows "x = r"
proof -
  from assms(2) have "r \<in> set xs \<and> f r = k" by (rule first_row_Some_mem)
  with assms(1,3,4) show ?thesis by (metis distinct_map inj_on_def)
qed

lemma filter_map_update:
  "filter (\<lambda>r. ar_student_id r = sid)
     (map (\<lambda>r. if ar_student_id r = k then r\<lparr>ar_status := s, ar_message := m\<rparr> else r) xs)
   = map (\<lambda>r. if ar_student_id r = k then r\<lparr>ar_status := s, ar_message := m\<rparr> else r)
       (filter (\<lambda>r. ar_student_id r = sid) xs)"
  by (induction xs) simp_all

lemma api_admin_reject_effect:
  "api_admin_reject db sid reason =
     (if pg_text reason \<and> pg_int4 sid then
        (AdminSuccess,
         db\<lparr>access_requests :=
              map (\<lambda>r. if ar_student_id r = sid
                        then r\<lparr>ar_status := ''REJECTED'', ar_message := Some reason\<rparr> else r)
                  (access_requests db)\<rparr>)
      else (AdminServerError, db))"
  by (simp add: api_admin_reject_def update_rejected_def)

lemma api_admin_approve_effect:
  "api_admin_approve db sid =
     (if pg_int4 sid then
        (AdminSuccess,
         db\<lparr>access_requests :=
              map (\<lambda>r. if ar_student_id r = sid
                        then r\<lparr>ar_status := ''APPROVED'', ar_message := None\<rparr> else r)
                  (access_requests db)\<rparr>)
      else (AdminServerError, db))"
  by (simp add: api_admin_approve_def update_approved_def)

lemma api_admin_reset_effect:
  "api_admin_reset db sid =
     (if pg_int4 sid then
        (AdminSuccess,
         db\<lparr>access_requests := filter (\<lambda>r. ar_student_id r \<noteq> sid) (access_requests db)\<rparr>)
      else (AdminServerError, db))"
  by (simp add: api_admin_reset_def delete_access_request_def)

lemma select_after_reject:
  "pg_text reason \<Longrightarrow> pg_int4 sid \<Longrightarrow>
   select_access_request (snd (api_admin_reject db sid reason)) sid =
     map (\<lambda>r. r\<lparr>ar_status := ''REJECTED'', ar_message := Some reason\<rparr>)
       (select_access_request db sid)"
  by (simp add: api_admin_reject_effect select_access_request_def filter_map_update)

lemma select_after_approve:
  "pg_int4 sid \<Longrightarrow>
   select_access_request (snd (api_admin_approve db sid)) sid =
     map (\<lambda>r. r\<lparr>ar_status := ''APPROVED'', ar_message := None\<rparr>)
       (select_access_request db sid)"
  by (simp add: api_admin_approve_effect select_access_request_def filter_map_update)

lemma select_other_after_approve:
  "k \<noteq> sid \<Longrightarrow>
   select_access_request (snd (api_admin_approve db sid)) k = select_access_request db k"
proof -
  assume ne: "k \<noteq> sid"
  have "filter (\<lambda>r. ar_student_id r = k)
          (map (\<lambda>r. if ar_student_id r = sid
                     then r\<lparr>ar_status := ''APPROVED'', ar_message := None\<rparr> else r) xs)
        = filter (\<lambda>r. ar_student_id r = k) xs" for xs
    using ne by (induction xs) auto
  from this [of "access_requests db"] show ?thesis
    by (simp add: api_admin_approve_effect select_access_request_def)
qed

lemma approve_twice:
  "snd (api_admin_approve (snd (api_admin_approve db sid)) sid) = snd (api_admin_approve db sid)"
proof -
  have "map (\<lambda>r. if ar_student_id r = sid
                     then r\<lparr>ar_status := ''APPROVED'', ar_message := None\<rparr> else r)
         (map (\<lambda>r. if ar_student_id r = sid
                     then r\<lparr>ar_status := ''APPROVED'', ar_message := None\<rparr> else r) xs)
        = map (\<lambda>r. if ar_student_id r = sid
                     then r\<lparr>ar_status := ''APPROVED'', ar_message := None\<rparr> else r) xs" for xs
    by (induction xs) auto
  then show ?thesis by (simp add: api_admin_approve_effect)
qed

lemma approve_approved:
  assumes "reachable db"
      and "first_row (select_access_request db sid) = Some r"
      and "ar_status r = ''APPROVED''"
  shows "snd (api_admin_approve db sid) = db"
proof -
  from reachable_store_inv [OF assms(1)]
  have d: "distinct (map ar_student_id (access_requests db))"
    and m: "\<forall>x\<in>set (access_requests db). ar_status x = ''APPROVED'' \<longrightarrow> ar_message x = None"
    by (simp_all add: store_inv_def list_all_iff)
  have "(if ar_student_id x = sid
          then x\<lparr>ar_status := ''APPROVED'', ar_message := None\<rparr> else x) = x"
    if "x \<in> set (access_requests db)" for x
  proof (cases "ar_student_id x = sid")
    case True
    from distinct_first_row_all [OF d assms(2) [unfolded select_access_request_def] that True]
    have "x = r" .
    with assms(3) m that have "ar_status x = ''APPROVED''" "ar_message x = None" by auto
    then show ?thesis by simp
  next
    case False
    then show ?thesis by simp
  qed
  then have "map (\<lambda>r. if ar_student_id r = sid
                     then r\<lparr>ar_status := ''APPROVED'', ar_message := None\<rparr> else r)
               (access_requests db) = access_requests db"
    by (intro map_idI)
  then show ?thesis by (simp add: api_admin_approve_effect)
qed

lemma select_after_reset:
  "pg_int4 sid \<Longrightarrow>
   select_access_request (snd (api_admin_reset db sid)) k =
     (if k = sid then [] else select_access_request db k)"
proof (cases "k = sid")
  case True
  assume "pg_int4 sid"
  then show ?thesis using True
    by (simp add: api_admin_reset_effect select_access_request_def filter_empty_conv)
next
  case False
  assume ok: "pg_int4 sid"
  have "filter (\<lambda>r. ar_student_id r = k) (filter (\<lambda>r. ar_student_id r \<noteq> sid) xs)
        = filter (\<lambda>r. ar_student_id r = k) xs" for xs
    using False by (induction xs) auto
  then show ?thesis using False ok
    by (simp add: api_admin_reset_effect select_access_request_def)
qed

lemma student_by_id_exists:
  assumes "select_student_by_code db code = Inr rows" and "first_row rows = Some student"
      and "pg_int4 (s_id student)"
  shows "\<exists>rows' s. select_student_by_id db (s_id student) = Inr rows' \<and> first_row rows' = Some s"
proof -
  from assms(1,2) have "first_row (filter (\<lambda>s. s_code s = code) (students db)) = Some student"
    by (simp add: select_student_by_code_Inr)
  then have "student \<in> set (students db)"
    by (rule first_row_Some_mem [THEN conjunct1])
  then have "filter (\<lambda>s. s_id s = s_id student) (students db) \<noteq> []"
    by (auto simp: filter_empty_conv)
  then show ?thesis using assms(3)
    by (cases "filter (\<lambda>s. s_id s = s_id student) (students db)")
       (simp_all add: first_row_def select_student_by_id_def)
qed

lemma api_my_grades_found:
  assumes "select_student_by_id db sid = Inr rows" and "first_row rows = Some s"
  shows "api_my_grades db sid =
     (let access = first_row (select_access_request db sid) in
      if map_option ar_status access = Some ''APPROVED'' then
        (ViewData \<lparr>v_locked = False, v_rejected = None, v_reject_reason = None,
           v_notifications = select_notifications db (s_code s),
           v_absences = select_absences db (s_code s),
           v_grades = select_grades db (s_code s)\<rparr>, db)
      else
        (ViewData \<lparr>v_locked = True,
           v_rejected = map_option (\<lambda>a. ar_status a = ''REJECTED'') access,
           v_reject_reason = Some (js_message_or_empty access),
           v_notifications = select_notifications db (s_code s),
           v_absences = select_absences db (s_code s), v_grades = []\<rparr>, db))"
proof -
  from assms(1) have ok: "pg_int4 sid"
    by (auto simp: select_student_by_id_def split: if_splits)
  show ?thesis
    using assms ok
    by (cases "first_row (select_access_request db sid)")
       (simp_all add: api_my_grades_def Let_def js_and_row_def js_truthy_def
          select_access_status_def select_access_request_def)
qed

lemma api_my_grades_refused:
  "\<not> pg_int4 sid \<Longrightarrow> api_my_grades db sid = (ViewServerError msg_view_error, db)"
  by (simp add: api_my_grades_def select_access_status_def)

lemma api_my_grades_not_found:
  "select_student_by_id db sid = Inr [] \<Longrightarrow>
   api_my_grades db sid = (ViewNotFound msg_student_not_found, db)"
  by (auto simp: api_my_grades_def Let_def select_access_status_def select_student_by_id_def
      first_row_def split: if_splits)

lemma race_run_shape:
  "\<exists>t1 t2 db'. race_run code c1 c2 schedule cfg = (t1, t2, db')"
  by (cases "race_run code c1 c2 schedule cfg") auto

section \<open>Properties of the login route\<close>

text \<open>
  Claim C1, for the device ids PostgreSQL accepts. When the code resolves to a student
  who has no access request, the login with a device \<open>D\<close> that is a \<^verbatim>\<open>TEXT\<close> value
  answers with success and status \<^verbatim>\<open>PENDING\<close> and appends exactly one row to
  \<^verbatim>\<open>access_requests\<close>, with status \<^verbatim>\<open>PENDING\<close> and device \<open>D\<close>; nothing else of the
  database changes. After any requests that follow, none of them the reset of this
  student, a login with the same code from a device other than \<open>D\<close> is answered with
  the device-mismatch failure, leaves the database as it is, and the row of the student
  still carries \<open>D\<close>. With a device \<open>D\<close> that holds the byte 0x00 the \<^verbatim>\<open>INSERT\<close> is
  refused: the answer is the server error and the database is unchanged. And in any
  database a login from a device other than the stored one is answered with the
  device-mismatch failure and changes nothing.
\<close>

theorem first_login_binds_device:
  assumes "select_student_by_code db code = Inr rows"
      and "first_row rows = Some student"
      and "select_access_request db (s_id student) = []"
  shows "(pg_text D \<longrightarrow>
           api_login db code D now =
             (LoginSuccess \<lparr>ls_id = s_id student, ls_full_name = s_name student,
                ls_secret_code = code, ls_status = ''PENDING'', ls_message = None\<rparr>,
              db\<lparr>access_requests := access_requests db @
                [\<lparr>ar_student_id = s_id student, ar_device_id = D, ar_status = ''PENDING'',
                  ar_message = None, ar_request_date = now\<rparr>]\<rparr>)
           \<and> select_access_request (snd (api_login db code D now)) (s_id student) =
                [\<lparr>ar_student_id = s_id student, ar_device_id = D, ar_status = ''PENDING'',
                  ar_message = None, ar_request_date = now\<rparr>]
           \<and> (\<forall>reqs D' now'. AdminReset (s_id student) \<notin> set reqs \<and> D' \<noteq> D \<longrightarrow>
                 api_login (serve_all reqs (snd (api_login db code D now))) code D' now' =
                   (LoginFailure msg_device_mismatch,
                    serve_all reqs (snd (api_login db code D now)))
                 \<and> (\<exists>r. first_row (select_access_request
                              (serve_all reqs (snd (api_login db code D now))) (s_id student))
                            = Some r
                          \<and> ar_device_id r = D)))
       \<and> (\<not> pg_text D \<longrightarrow>
             api_login db code D now = (LoginServerError msg_login_error, db))
       \<and> (\<forall>db2 rows2 request D' now'.
             select_student_by_code db2 code = Inr rows2
             \<and> first_row rows2 = Some student
             \<and> first_row (select_access_request db2 (s_id student)) = Some request
             \<and> ar_device_id request \<noteq> D' \<longrightarrow>
             api_login db2 code D' now' = (LoginFailure msg_device_mismatch, db2))"
proof -
  let ?row = "\<lparr>ar_student_id = s_id student, ar_device_id = D, ar_status = ''PENDING'',
                ar_message = None, ar_request_date = now\<rparr>"
  let ?db1 = "db\<lparr>access_requests := access_requests db @ [?row]\<rparr>"
  have accepted: "api_login db code D now =
             (LoginSuccess \<lparr>ls_id = s_id student, ls_full_name = s_name student,
                ls_secret_code = code, ls_status = ''PENDING'', ls_message = None\<rparr>, ?db1)
           \<and> select_access_request (snd (api_login db code D now)) (s_id student) = [?row]
           \<and> (\<forall>reqs D' now'. AdminReset (s_id student) \<notin> set reqs \<and> D' \<noteq> D \<longrightarrow>
                 api_login (serve_all reqs (snd (api_login db code D now))) code D' now' =
                   (LoginFailure msg_device_mismatch,
                    serve_all reqs (snd (api_login db code D now)))
                 \<and> (\<exists>r. first_row (select_access_request
                              (serve_all reqs (snd (api_login db code D now))) (s_id student))
                            = Some r
                          \<and> ar_device_id r = D))"
    if ok: "pg_text D"
  proof -
    have first: "api_login db code D now =
           (LoginSuccess \<lparr>ls_id = s_id student, ls_full_name = s_name student,
              ls_secret_code = code, ls_status = ''PENDING'', ls_message = None\<rparr>, ?db1)"
      using assms ok by (rule api_login_first)
    then have db1: "snd (api_login db code D now) = ?db1" by simp
    have rows1: "select_access_request ?db1 (s_id student) = [?row]"
      using assms(3) by (simp add: select_access_request_def)
    have resolve1: "select_student_by_code ?db1 code = Inr rows"
      using assms(1) by (simp add: select_student_by_code_Inr)
    have bound1: "first_row (select_access_request ?db1 (s_id student)) = Some ?row"
      using rows1 by (simp add: first_row_def)
    have later: "api_login (serve_all reqs ?db1) code D' now' =
               (LoginFailure msg_device_mismatch, serve_all reqs ?db1)
             \<and> (\<exists>r. first_row (select_access_request (serve_all reqs ?db1) (s_id student)) = Some r
                      \<and> ar_device_id r = D)"
      if "AdminReset (s_id student) \<notin> set reqs" and "D' \<noteq> D" for reqs D' now'
    proof -
      from serve_all_keeps_binding [OF bound1 that(1)]
      obtain r where r:
        "first_row (select_access_request (serve_all reqs ?db1) (s_id student)) = Some r"
        "ar_device_id r = D" by auto
      from serve_all_keeps_student [OF resolve1 assms(2), of reqs]
      obtain rows' where rows': "select_student_by_code (serve_all reqs ?db1) code = Inr rows'"
        "first_row rows' = Some student" by blast
      from r(2) that(2) have "ar_device_id r \<noteq> D'" by simp
      from api_login_mismatch [OF rows' r(1) this] r show ?thesis by auto
    qed
    have later_all: "\<forall>reqs D' now'. AdminReset (s_id student) \<notin> set reqs \<and> D' \<noteq> D \<longrightarrow>
             api_login (serve_all reqs ?db1) code D' now' =
               (LoginFailure msg_device_mismatch, serve_all reqs ?db1)
             \<and> (\<exists>r. first_row (select_access_request (serve_all reqs ?db1) (s_id student)) = Some r
                      \<and> ar_device_id r = D)"
      by (intro allI impI, elim conjE) (rule later)
    show ?thesis unfolding db1 by (intro conjI first rows1 later_all)
  qed
  have refused: "api_login db code D now = (LoginServerError msg_login_error, db)"
    if "\<not> pg_text D"
    using assms that by (rule api_login_first_refused)
  have general: "\<forall>db2 rows2 request D' now'.
             select_student_by_code db2 code = Inr rows2
             \<and> first_row rows2 = Some student
             \<and> first_row (select_access_request db2 (s_id student)) = Some request
             \<and> ar_device_id request \<noteq> D' \<longrightarrow>
             api_login db2 code D' now' = (LoginFailure msg_device_mismatch, db2)"
    by (intro allI impI, elim conjE) (rule api_login_mismatch)
  show ?thesis
    using accepted refused general by (intro conjI impI) blast+
qed

theorem first_login_binds_device_witness:
  "select_student_by_code demo_store ''AB-1234'' = Inr [amina]
   \<and> first_row [amina] = Some amina
   \<and> select_access_request demo_store (s_id amina) = []
   \<and> pg_text ''phone-1''
   \<and> fst (api_login demo_store ''AB-1234'' ''phone-1'' 20) =
       LoginSuccess \<lparr>ls_id = 1, ls_full_name = ''Amina'', ls_secret_code = ''AB-1234'',
         ls_status = ''PENDING'', ls_message = None\<rparr>
   \<and> access_requests (snd (api_login demo_store ''AB-1234'' ''phone-1'' 20)) =
       [\<lparr>ar_student_id = 1, ar_device_id = ''phone-1'', ar_status = ''PENDING'',
         ar_message = None, ar_request_date = 20\<rparr>]
   \<and> api_login (serve_all [AdminApprove 1, Login ''AB-1234'' ''phone-1'' 21]
         (snd (api_login demo_store ''AB-1234'' ''phone-1'' 20))) ''AB-1234'' ''phone-2'' 22 =
       (LoginFailure msg_device_mismatch,
        serve_all [AdminApprove 1, Login ''AB-1234'' ''phone-1'' 21]
         (snd (api_login demo_store ''AB-1234'' ''phone-1'' 20)))"
proof -
  have h1: "select_student_by_code demo_store ''AB-1234'' = Inr [amina]"
    by (simp add: demo_defs)
  have h2: "first_row [amina] = Some amina" by (simp add: first_row_def)
  have h3: "select_access_request demo_store (s_id amina) = []"
    by (simp add: demo_defs)
  have h4: "pg_text ''phone-1''" by (simp add: pg_text_def)
  note t = first_login_binds_device [OF h1 h2 h3, of "''phone-1''" 20,
      THEN conjunct1, rule_format, OF h4]
  have a: "api_login demo_store ''AB-1234'' ''phone-1'' 20 =
           (LoginSuccess \<lparr>ls_id = s_id amina, ls_full_name = s_name amina,
              ls_secret_code = ''AB-1234'', ls_status = ''PENDING'', ls_message = None\<rparr>,
            demo_store\<lparr>access_requests := access_requests demo_store @
              [\<lparr>ar_student_id = s_id amina, ar_device_id = ''phone-1'', ar_status = ''PENDING'',
                ar_message = None, ar_request_date = 20\<rparr>]\<rparr>)"
    using t by (rule conjunct1)
  have side: "AdminReset (s_id amina) \<notin> set [AdminApprove 1, Login ''AB-1234'' ''phone-1'' 21]
        \<and> ''phone-2'' \<noteq> ''phone-1''" by simp
  note t3 = t [THEN conjunct2, THEN conjunct2, rule_format, OF side, THEN conjunct1]
  have b: "api_login (serve_all [AdminApprove 1, Login ''AB-1234'' ''phone-1'' 21]
         (snd (api_login demo_store ''AB-1234'' ''phone-1'' 20))) ''AB-1234'' ''phone-2'' 22 =
       (LoginFailure msg_device_mismatch,
        serve_all [AdminApprove 1, Login ''AB-1234'' ''phone-1'' 21]
         (snd (api_login demo_store ''AB-1234'' ''phone-1'' 20)))"
    by (rule t3)
  have c: "fst (api_login demo_store ''AB-1234'' ''phone-1'' 20) =
       LoginSuccess \<lparr>ls_id = 1, ls_full_name = ''Amina'', ls_secret_code = ''AB-1234'',
         ls_status = ''PENDING'', ls_message = None\<rparr>"
    unfolding a by (simp add: amina_def)
  have d: "access_requests (snd (api_login demo_store ''AB-1234'' ''phone-1'' 20)) =
       [\<lparr>ar_student_id = 1, ar_device_id = ''phone-1'', ar_status = ''PENDING'',
         ar_message = None, ar_request_date = 20\<rparr>]"
    unfolding a by (simp add: amina_def demo_store_def)
  show ?thesis by (intro conjI h1 h2 h3 h4 b c d)
qed

text \<open>
  The claim with every device id: in the small database the code of Amina resolves and
  she has no access request, and the login from a device id with the byte 0x00 is
  answered with the server error and binds nothing.
\<close>

theorem first_login_binds_device_counterexample:
  "select_student_by_code demo_store ''AB-1234'' = Inr [amina]
   \<and> select_access_request demo_store (s_id amina) = []
   \<and> api_login demo_store ''AB-1234'' nul_text 20 =
       (LoginServerError msg_login_error, demo_store)"
  by (simp add: api_login_def nul_text_def demo_defs)

text \<open>
  Claim C3. When the code resolves to a student whose access request is bound to device
  \<open>D\<close>, a login with that code from \<open>D\<close> leaves the whole database unchanged (and with
  it the device, status, message and date of the request) and answers with success and
  the stored status as it is; the answer has the key \<^verbatim>\<open>message\<close>, with the stored
  message, exactly when the stored status is \<^verbatim>\<open>REJECTED\<close>.
\<close>

theorem same_device_login_reads:
  assumes "select_student_by_code db code = Inr rows"
      and "first_row rows = Some student"
      and "first_row (select_access_request db (s_id student)) = Some request"
      and "ar_device_id request = D"
  shows "api_login db code D now =
           (LoginSuccess \<lparr>ls_id = s_id student, ls_full_name = s_name student,
              ls_secret_code = code, ls_status = ar_status request,
              ls_message = (if ar_status request = ''REJECTED''
                            then Some (ar_message request) else None)\<rparr>, db)"
  using assms by (simp add: api_login_def)

theorem same_device_login_reads_witness:
  "select_student_by_code demo_bound ''AB-1234'' = Inr [amina]
   \<and> first_row [amina] = Some amina
   \<and> first_row (select_access_request demo_bound (s_id amina)) =
       Some \<lparr>ar_student_id = 1, ar_device_id = ''phone-1'', ar_status = ''PENDING'',
         ar_message = None, ar_request_date = 20\<rparr>
   \<and> api_login demo_bound ''AB-1234'' ''phone-1'' 30 =
       (LoginSuccess \<lparr>ls_id = 1, ls_full_name = ''Amina'', ls_secret_code = ''AB-1234'',
          ls_status = ''PENDING'', ls_message = None\<rparr>, demo_bound)"
proof -
  let ?r = "\<lparr>ar_student_id = 1, ar_device_id = ''phone-1'', ar_status = ''PENDING'',
         ar_message = None, ar_request_date = 20\<rparr>"
  have h1: "select_student_by_code demo_bound ''AB-1234'' = Inr [amina]"
    by (simp add: demo_bound_defs)
  have h2: "first_row [amina] = Some amina" by (simp add: first_row_def)
  have h3: "first_row (select_access_request demo_bound (s_id amina)) = Some ?r"
    by (simp add: demo_bound_defs)
  have h4: "ar_device_id ?r = ''phone-1''" by simp
  from same_device_login_reads [OF h1 h2 h3 h4, of 30]
  have "api_login demo_bound ''AB-1234'' ''phone-1'' 30 =
       (LoginSuccess \<lparr>ls_id = 1, ls_full_name = ''Amina'', ls_secret_code = ''AB-1234'',
          ls_status = ''PENDING'', ls_message = None\<rparr>, demo_bound)"
    by (simp add: amina_def)
  with h1 h2 h3 show ?thesis by (intro conjI)
qed

text \<open>
  Claim C9. A login whose code matches no row of \<^verbatim>\<open>students\<close> is answered without
  success and leaves the database as it is: with \<^verbatim>\<open>success: false\<close> and the message
  "Code matricule incorrect" when the lookup returns no row, and with the server error
  "Erreur serveur lors de la connexion." when PostgreSQL refuses the code; neither
  message is the message of the device-mismatch answer.
\<close>

theorem login_unknown_code:
  "(select_student_by_code db code = Inr [] \<longrightarrow>
      api_login db code device_id now = (LoginFailure msg_invalid_code, db))
   \<and> (\<forall>err. select_student_by_code db code = Inl err \<longrightarrow>
         api_login db code device_id now = (LoginServerError msg_login_error, db))
   \<and> msg_invalid_code \<noteq> msg_device_mismatch
   \<and> msg_login_error \<noteq> msg_device_mismatch"
  by (simp add: api_login_def first_row_def msg_invalid_code_def msg_device_mismatch_def
      msg_login_error_def)

theorem login_unknown_code_witness:
  "select_student_by_code demo_bound ''ZZ-9999'' = Inr []
   \<and> api_login demo_bound ''ZZ-9999'' ''phone-1'' 30 = (LoginFailure msg_invalid_code, demo_bound)
   \<and> select_student_by_code demo_bound nul_text = Inl CharacterNotInRepertoire
   \<and> api_login demo_bound nul_text ''phone-1'' 30 = (LoginServerError msg_login_error, demo_bound)
   \<and> msg_invalid_code \<noteq> msg_device_mismatch"
proof -
  have h: "select_student_by_code demo_bound ''ZZ-9999'' = Inr []"
    by (simp add: demo_bound_defs)
  have g: "select_student_by_code demo_bound nul_text = Inl CharacterNotInRepertoire"
    by (simp add: select_student_by_code_def nul_text_def pg_text_def)
  note t = login_unknown_code [of demo_bound "''ZZ-9999''" "''phone-1''" 30]
  note u = login_unknown_code [of demo_bound nul_text "''phone-1''" 30]
  from t [THEN conjunct1, rule_format, OF h]
  have a: "api_login demo_bound ''ZZ-9999'' ''phone-1'' 30 =
             (LoginFailure msg_invalid_code, demo_bound)" .
  from u [THEN conjunct2, THEN conjunct1, rule_format, OF g]
  have b: "api_login demo_bound nul_text ''phone-1'' 30 =
             (LoginServerError msg_login_error, demo_bound)" .
  from t have c: "msg_invalid_code \<noteq> msg_device_mismatch" by simp
  show ?thesis by (intro conjI h a g b c)
qed

section \<open>Properties of the admin routes\<close>

text \<open>
  Claim C5, for the reasons PostgreSQL accepts. For a student with an access request,
  whatever its status, the rejection with a reason that is a \<^verbatim>\<open>TEXT\<close> value (and the
  student's id, an \<^verbatim>\<open>INTEGER\<close> value) answers with success and sets the status of the
  request to \<^verbatim>\<open>REJECTED\<close> and its message to the reason, the device and the date staying
  as they were. Afterwards a login with the student's code from the bound device answers
  with success, status \<^verbatim>\<open>REJECTED\<close> and that reason as message, and the student's data
  route answers with \<^verbatim>\<open>locked\<close> true, \<^verbatim>\<open>rejected\<close> true and \<^verbatim>\<open>reject_reason\<close> the
  reason; neither changes the database. With a reason that holds the byte 0x00, or an
  id outside \<^verbatim>\<open>INTEGER\<close>, the \<^verbatim>\<open>UPDATE\<close> is refused: the answer is
  \<^verbatim>\<open>success: false\<close> with HTTP status 500 and the database is unchanged.
\<close>

theorem reject_overwrites_and_shows:
  assumes "select_student_by_code db code = Inr rows"
      and "first_row rows = Some student"
      and "first_row (select_access_request db (s_id student)) = Some request"
  shows "(pg_text reason \<and> pg_int4 (s_id student) \<longrightarrow>
           fst (api_admin_reject db (s_id student) reason) = AdminSuccess
           \<and> select_access_request (snd (api_admin_reject db (s_id student) reason))
                (s_id student) =
               map (\<lambda>r. r\<lparr>ar_status := ''REJECTED'', ar_message := Some reason\<rparr>)
                 (select_access_request db (s_id student))
           \<and> first_row (select_access_request
                 (snd (api_admin_reject db (s_id student) reason)) (s_id student)) =
               Some (request\<lparr>ar_status := ''REJECTED'', ar_message := Some reason\<rparr>)
           \<and> api_login (snd (api_admin_reject db (s_id student) reason)) code
                 (ar_device_id request) now =
               (LoginSuccess \<lparr>ls_id = s_id student, ls_full_name = s_name student,
                  ls_secret_code = code, ls_status = ''REJECTED'',
                  ls_message = Some (Some reason)\<rparr>,
                snd (api_admin_reject db (s_id student) reason))
           \<and> (\<exists>v. api_my_grades (snd (api_admin_reject db (s_id student) reason))
                      (s_id student) =
                     (ViewData v, snd (api_admin_reject db (s_id student) reason))
                   \<and> v_locked v \<and> v_rejected v = Some True
                   \<and> v_reject_reason v = Some reason))
       \<and> (\<not> (pg_text reason \<and> pg_int4 (s_id student)) \<longrightarrow>
             api_admin_reject db (s_id student) reason = (AdminServerError, db))"
proof (intro conjI impI)
  assume bad: "\<not> (pg_text reason \<and> pg_int4 (s_id student))"
  then show "api_admin_reject db (s_id student) reason = (AdminServerError, db)"
    by (simp add: api_admin_reject_effect)
next
  assume ok: "pg_text reason \<and> pg_int4 (s_id student)"
  let ?db' = "snd (api_admin_reject db (s_id student) reason)"
  let ?r' = "request\<lparr>ar_status := ''REJECTED'', ar_message := Some reason\<rparr>"
  show "fst (api_admin_reject db (s_id student) reason) = AdminSuccess"
    using ok by (simp add: api_admin_reject_effect)
  show rows': "select_access_request ?db' (s_id student) =
           map (\<lambda>r. r\<lparr>ar_status := ''REJECTED'', ar_message := Some reason\<rparr>)
             (select_access_request db (s_id student))"
    using ok by (simp add: select_after_reject)
  show row: "first_row (select_access_request ?db' (s_id student)) = Some ?r'"
    by (simp add: rows' first_row_map assms(3))
  have studs: "students ?db' = students db"
    by (simp add: api_admin_reject_effect)
  have resolve: "select_student_by_code ?db' code = Inr rows"
    using assms(1) by (simp add: select_student_by_code_Inr studs)
  have "api_login ?db' code (ar_device_id ?r') now =
           (LoginSuccess \<lparr>ls_id = s_id student, ls_full_name = s_name student,
              ls_secret_code = code, ls_status = ar_status ?r',
              ls_message = (if ar_status ?r' = ''REJECTED''
                            then Some (ar_message ?r') else None)\<rparr>, ?db')"
    using resolve assms(2) row by (rule api_login_same_device) simp
  then show "api_login ?db' code (ar_device_id request) now =
           (LoginSuccess \<lparr>ls_id = s_id student, ls_full_name = s_name student,
              ls_secret_code = code, ls_status = ''REJECTED'',
              ls_message = Some (Some reason)\<rparr>, ?db')"
    by simp
  from ok have int4: "pg_int4 (s_id student)" by simp
  from student_by_id_exists [OF assms(1,2) int4]
  obtain rows2 s where "select_student_by_id db (s_id student) = Inr rows2"
    "first_row rows2 = Some s" by blast
  then have found: "select_student_by_id ?db' (s_id student) = Inr rows2"
    "first_row rows2 = Some s"
    by (simp_all add: select_student_by_id_def studs int4)
  from api_my_grades_found [OF found] row
  show "\<exists>v. api_my_grades ?db' (s_id student) = (ViewData v, ?db')
               \<and> v_locked v \<and> v_rejected v = Some True \<and> v_reject_reason v = Some reason"
    by (simp add: js_message_or_empty_def)
qed

theorem reject_overwrites_and_shows_witness:
  "select_student_by_code (snd (api_admin_approve demo_bound 1)) ''AB-1234'' = Inr [amina]
   \<and> first_row [amina] = Some amina
   \<and> first_row (select_access_request (snd (api_admin_approve demo_bound 1)) (s_id amina)) =
       Some \<lparr>ar_student_id = 1, ar_device_id = ''phone-1'', ar_status = ''APPROVED'',
         ar_message = None, ar_request_date = 20\<rparr>
   \<and> pg_text ''late payment'' \<and> pg_int4 (s_id amina)
   \<and> first_row (select_access_request
         (snd (api_admin_reject (snd (api_admin_approve demo_bound 1)) 1 ''late payment'')) 1) =
       Some \<lparr>ar_student_id = 1, ar_device_id = ''phone-1'', ar_status = ''REJECTED'',
         ar_message = Some ''late payment'', ar_request_date = 20\<rparr>
   \<and> fst (api_login (snd (api_admin_reject (snd (api_admin_approve demo_bound 1)) 1 ''late payment''))
         ''AB-1234'' ''phone-1'' 30) =
       LoginSuccess \<lparr>ls_id = 1, ls_full_name = ''Amina'', ls_secret_code = ''AB-1234'',
          ls_status = ''REJECTED'', ls_message = Some (Some ''late payment'')\<rparr>"
proof -
  let ?db = "snd (api_admin_approve demo_bound 1)"
  let ?r = "\<lparr>ar_student_id = 1, ar_device_id = ''phone-1'', ar_status = ''APPROVED'',
         ar_message = None, ar_request_date = 20\<rparr>"
  have h1: "select_student_by_code ?db ''AB-1234'' = Inr [amina]"
    by (simp add: api_admin_approve_def update_approved_def demo_bound_defs)
  have h2: "first_row [amina] = Some amina" by (simp add: first_row_def)
  have h3: "first_row (select_access_request ?db (s_id amina)) = Some ?r"
    by (simp add: api_admin_approve_def update_approved_def demo_bound_defs)
  have h4: "pg_text ''late payment''" by (simp add: pg_text_def)
  have h5: "pg_int4 (s_id amina)" by (simp add: pg_int4_def amina_def)
  have h45: "pg_text ''late payment'' \<and> pg_int4 (s_id amina)" using h4 h5 by (rule conjI)
  note t = reject_overwrites_and_shows [OF h1 h2 h3, of "''late payment''" 30,
      THEN conjunct1, rule_format, OF h45]
  have sid: "s_id amina = 1" by (simp add: amina_def)
  from t [THEN conjunct2, THEN conjunct2, THEN conjunct1]
  have a: "first_row (select_access_request
         (snd (api_admin_reject ?db 1 ''late payment'')) 1) =
       Some \<lparr>ar_student_id = 1, ar_device_id = ''phone-1'', ar_status = ''REJECTED'',
         ar_message = Some ''late payment'', ar_request_date = 20\<rparr>"
    by (simp add: sid)
  from t [THEN conjunct2, THEN conjunct2, THEN conjunct2, THEN conjunct1]
  have b: "fst (api_login (snd (api_admin_reject ?db 1 ''late payment''))
         ''AB-1234'' ''phone-1'' 30) =
       LoginSuccess \<lparr>ls_id = 1, ls_full_name = ''Amina'', ls_secret_code = ''AB-1234'',
          ls_status = ''REJECTED'', ls_message = Some (Some ''late payment'')\<rparr>"
    by (simp add: amina_def)
  show ?thesis by (intro conjI h1 h2 h3 h4 h5 a b)
qed

text \<open>
  The claim with every reason string: Amina has a pending request in the small
  database, and the rejection with a reason that holds the byte 0x00 is answered with
  HTTP status 500 and leaves her request pending.
\<close>

theorem reject_overwrites_and_shows_counterexample:
  "select_student_by_code demo_bound ''AB-1234'' = Inr [amina]
   \<and> select_access_request demo_bound (s_id amina) =
       [\<lparr>ar_student_id = 1, ar_device_id = ''phone-1'', ar_status = ''PENDING'',
         ar_message = None, ar_request_date = 20\<rparr>]
   \<and> api_admin_reject demo_bound (s_id amina) nul_text = (AdminServerError, demo_bound)"
  by (simp add: api_admin_reject_def update_rejected_def nul_text_def demo_bound_defs)

text \<open>
  Claim C6, for the ids and device ids PostgreSQL accepts. For every id that is an
  \<^verbatim>\<open>INTEGER\<close> value the reset answers with success and deletes the rows of that id from
  \<^verbatim>\<open>access_requests\<close>, leaving the rows of every other id and every other table as
  they were; for an id outside \<^verbatim>\<open>INTEGER\<close> it answers with HTTP status 500 and changes
  nothing. A login that follows the reset, with the code of the student of that id,
  answers with success and status \<^verbatim>\<open>PENDING\<close> and appends a fresh row with its device
  when the device id is a \<^verbatim>\<open>TEXT\<close> value, and answers with the server error and binds
  nothing when the device id holds the byte 0x00. And no request other than the reset
  of this id unbinds or rebinds: if the id has a row before the request, it has one
  after it, with the same device.
\<close>

theorem reset_releases_binding:
  "(pg_int4 sid \<longrightarrow>
      api_admin_reset db sid =
        (AdminSuccess,
         db\<lparr>access_requests := filter (\<lambda>r. ar_student_id r \<noteq> sid) (access_requests db)\<rparr>)
      \<and> select_access_request (snd (api_admin_reset db sid)) sid = []
      \<and> (\<forall>k. k \<noteq> sid \<longrightarrow>
            select_access_request (snd (api_admin_reset db sid)) k = select_access_request db k))
   \<and> (\<not> pg_int4 sid \<longrightarrow> api_admin_reset db sid = (AdminServerError, db))
   \<and> (\<forall>code rows student D now.
         pg_int4 sid \<and> select_student_by_code db code = Inr rows
         \<and> first_row rows = Some student \<and> s_id student = sid \<longrightarrow>
         api_login (snd (api_admin_reset db sid)) code D now =
           (if pg_text D then
              (LoginSuccess \<lparr>ls_id = sid, ls_full_name = s_name student,
                 ls_secret_code = code, ls_status = ''PENDING'', ls_message = None\<rparr>,
               (snd (api_admin_reset db sid))
                 \<lparr>access_requests := access_requests (snd (api_admin_reset db sid)) @
                   [\<lparr>ar_student_id = sid, ar_device_id = D, ar_status = ''PENDING'',
                     ar_message = None, ar_request_date = now\<rparr>]\<rparr>)
            else (LoginServerError msg_login_error, snd (api_admin_reset db sid))))
   \<and> (\<forall>req r. req \<noteq> AdminReset sid
         \<and> first_row (select_access_request db sid) = Some r \<longrightarrow>
         (\<exists>r'. first_row (select_access_request (serve req db) sid) = Some r'
               \<and> ar_device_id r' = ar_device_id r))"
proof -
  let ?db' = "snd (api_admin_reset db sid)"
  have effect: "pg_int4 sid \<longrightarrow>
      api_admin_reset db sid =
        (AdminSuccess,
         db\<lparr>access_requests := filter (\<lambda>r. ar_student_id r \<noteq> sid) (access_requests db)\<rparr>)
      \<and> select_access_request ?db' sid = []
      \<and> (\<forall>k. k \<noteq> sid \<longrightarrow> select_access_request ?db' k = select_access_request db k)"
    by (simp add: select_after_reset) (simp add: api_admin_reset_effect)
  have refused: "\<not> pg_int4 sid \<longrightarrow> api_admin_reset db sid = (AdminServerError, db)"
    by (simp add: api_admin_reset_effect)
  have login: "api_login ?db' code D now =
           (if pg_text D then
              (LoginSuccess \<lparr>ls_id = sid, ls_full_name = s_name student,
                 ls_secret_code = code, ls_status = ''PENDING'', ls_message = None\<rparr>,
               ?db'\<lparr>access_requests := access_requests ?db' @
                   [\<lparr>ar_student_id = sid, ar_device_id = D, ar_status = ''PENDING'',
                     ar_message = None, ar_request_date = now\<rparr>]\<rparr>)
            else (LoginServerError msg_login_error, ?db'))"
    if "pg_int4 sid" "select_student_by_code db code = Inr rows"
       "first_row rows = Some student" "s_id student = sid"
    for code rows student D now
  proof -
    have r1: "select_student_by_code ?db' code = Inr rows"
      using that(2) by (simp add: api_admin_reset_effect select_student_by_code_Inr)
    have r2: "select_access_request ?db' (s_id student) = []"
      using that(1,4) by (simp add: select_after_reset)
    show ?thesis
    proof (cases "pg_text D")
      case True
      from api_login_first [OF r1 that(3) r2 True, of now] that(4) True
      show ?thesis by simp
    next
      case False
      from api_login_first_refused [OF r1 that(3) r2 False, of now] False
      show ?thesis by simp
    qed
  qed
  have login_all: "\<forall>code rows student D now.
         pg_int4 sid \<and> select_student_by_code db code = Inr rows
         \<and> first_row rows = Some student \<and> s_id student = sid \<longrightarrow>
         api_login ?db' code D now =
           (if pg_text D then
              (LoginSuccess \<lparr>ls_id = sid, ls_full_name = s_name student,
                 ls_secret_code = code, ls_status = ''PENDING'', ls_message = None\<rparr>,
               ?db'\<lparr>access_requests := access_requests ?db' @
                   [\<lparr>ar_student_id = sid, ar_device_id = D, ar_status = ''PENDING'',
                     ar_message = None, ar_request_date = now\<rparr>]\<rparr>)
            else (LoginServerError msg_login_error, ?db'))"
    by (intro allI impI, elim conjE) (rule login)
  have only: "\<forall>req r. req \<noteq> AdminReset sid
         \<and> first_row (select_access_request db sid) = Some r \<longrightarrow>
         (\<exists>r'. first_row (select_access_request (serve req db) sid) = Some r'
               \<and> ar_device_id r' = ar_device_id r)"
    by (intro allI impI, elim conjE) (rule serve_keeps_binding)
  show ?thesis by (intro conjI effect refused login_all only)
qed

theorem reset_releases_binding_witness:
  "pg_int4 1
   \<and> select_student_by_code demo_bound ''AB-1234'' = Inr [amina]
   \<and> select_access_request (snd (api_admin_reset demo_bound 1)) 1 = []
   \<and> pg_text ''phone-3''
   \<and> api_login (snd (api_admin_reset demo_bound 1)) ''AB-1234'' ''phone-3'' 40 =
       (LoginSuccess \<lparr>ls_id = 1, ls_full_name = ''Amina'', ls_secret_code = ''AB-1234'',
          ls_status = ''PENDING'', ls_message = None\<rparr>,
        demo_store\<lparr>access_requests :=
          [\<lparr>ar_student_id = 1, ar_device_id = ''phone-3'', ar_status = ''PENDING'',
            ar_message = None, ar_request_date = 40\<rparr>]\<rparr>)
   \<and> AdminApprove 1 \<noteq> AdminReset 1
   \<and> first_row (select_access_request demo_bound 1) =
       Some \<lparr>ar_student_id = 1, ar_device_id = ''phone-1'', ar_status = ''PENDING'',
         ar_message = None, ar_request_date = 20\<rparr>
   \<and> (\<exists>r'. first_row (select_access_request (serve (AdminApprove 1) demo_bound) 1) = Some r'
          \<and> ar_device_id r' = ''phone-1'')"
proof -
  note t = reset_releases_binding [of 1 demo_bound]
  have i: "pg_int4 1" by (simp add: pg_int4_def)
  have h1: "select_student_by_code demo_bound ''AB-1234'' = Inr [amina]"
    by (simp add: demo_bound_defs)
  have h2: "first_row [amina] = Some amina" by (simp add: first_row_def)
  have sid: "s_id amina = 1" by (simp add: amina_def)
  have p: "pg_text ''phone-3''" by (simp add: pg_text_def)
  have reset: "snd (api_admin_reset demo_bound 1) = demo_store"
    using i by (simp add: api_admin_reset_effect demo_bound_def demo_store_def)
  from t [THEN conjunct1, rule_format, OF i, THEN conjunct2, THEN conjunct1]
  have a: "select_access_request (snd (api_admin_reset demo_bound 1)) 1 = []" .
  have all4: "pg_int4 1 \<and> select_student_by_code demo_bound ''AB-1234'' = Inr [amina]
         \<and> first_row [amina] = Some amina \<and> s_id amina = 1"
    by (intro conjI i h1 h2 sid)
  from t [THEN conjunct2, THEN conjunct2, THEN conjunct1, rule_format, OF all4,
      of "''phone-3''" 40] p
  have b: "api_login (snd (api_admin_reset demo_bound 1)) ''AB-1234'' ''phone-3'' 40 =
       (LoginSuccess \<lparr>ls_id = 1, ls_full_name = ''Amina'', ls_secret_code = ''AB-1234'',
          ls_status = ''PENDING'', ls_message = None\<rparr>,
        demo_store\<lparr>access_requests :=
          [\<lparr>ar_student_id = 1, ar_device_id = ''phone-3'', ar_status = ''PENDING'',
            ar_message = None, ar_request_date = 40\<rparr>]\<rparr>)"
    by (simp add: reset amina_def) (simp add: demo_store_def)
  have c: "AdminApprove 1 \<noteq> AdminReset 1" by simp
  have d: "first_row (select_access_request demo_bound 1) =
       Some \<lparr>ar_student_id = 1, ar_device_id = ''phone-1'', ar_status = ''PENDING'',
         ar_message = None, ar_request_date = 20\<rparr>"
    by (simp add: demo_bound_defs)
  have cd: "AdminApprove 1 \<noteq> AdminReset 1
       \<and> first_row (select_access_request demo_bound 1) =
       Some \<lparr>ar_student_id = 1, ar_device_id = ''phone-1'', ar_status = ''PENDING'',
         ar_message = None, ar_request_date = 20\<rparr>"
    using c d by (rule conjI)
  from t [THEN conjunct2, THEN conjunct2, THEN conjunct2, rule_format, OF cd]
  have e: "\<exists>r'. first_row (select_access_request (serve (AdminApprove 1) demo_bound) 1) = Some r'
          \<and> ar_device_id r' = ''phone-1''"
    by simp
  show ?thesis by (intro conjI i h1 a p b c d e)
qed

text \<open>
  The claim with every device: after the reset of Amina's request in the small
  database, her login from a device id with the byte 0x00 is answered with the server
  error and creates no binding.
\<close>

theorem reset_releases_binding_counterexample:
  "api_admin_reset demo_bound 1 = (AdminSuccess, demo_store)
   \<and> select_student_by_code demo_store ''AB-1234'' = Inr [amina]
   \<and> api_login demo_store ''AB-1234'' nul_text 40 =
       (LoginServerError msg_login_error, demo_store)
   \<and> access_requests demo_store = []"
  by (simp add: api_admin_reset_def delete_access_request_def api_login_def nul_text_def
      demo_bound_defs)

text \<open>
  Claim C7. For an id that is an \<^verbatim>\<open>INTEGER\<close> value, as every id with a row is, the
  approval answers with success and sets the status of the student's request to
  \<^verbatim>\<open>APPROVED\<close> and its message to \<^verbatim>\<open>NULL\<close>; for any other id it answers with HTTP
  status 500 and changes nothing. In every case it leaves the requests of other students
  as they were, a second approval leaves the database exactly as the first left it, and
  in a database the server can be in, the approval of a request that is already
  \<^verbatim>\<open>APPROVED\<close> changes nothing at all.
\<close>

theorem approve_sets_and_is_idempotent:
  "(pg_int4 sid \<longrightarrow>
      fst (api_admin_approve db sid) = AdminSuccess
      \<and> select_access_request (snd (api_admin_approve db sid)) sid =
          map (\<lambda>r. r\<lparr>ar_status := ''APPROVED'', ar_message := None\<rparr>)
            (select_access_request db sid))
   \<and> (\<not> pg_int4 sid \<longrightarrow> api_admin_approve db sid = (AdminServerError, db))
   \<and> (\<forall>k. k \<noteq> sid \<longrightarrow>
         select_access_request (snd (api_admin_approve db sid)) k = select_access_request db k)
   \<and> snd (api_admin_approve (snd (api_admin_approve db sid)) sid) = snd (api_admin_approve db sid)
   \<and> (\<forall>r. reachable db \<and> first_row (select_access_request db sid) = Some r
            \<and> ar_status r = ''APPROVED'' \<longrightarrow>
          snd (api_admin_approve db sid) = db)"
proof -
  have sets: "pg_int4 sid \<longrightarrow>
      fst (api_admin_approve db sid) = AdminSuccess
      \<and> select_access_request (snd (api_admin_approve db sid)) sid =
          map (\<lambda>r. r\<lparr>ar_status := ''APPROVED'', ar_message := None\<rparr>)
            (select_access_request db sid)"
    by (simp add: select_after_approve) (simp add: api_admin_approve_effect)
  have refused: "\<not> pg_int4 sid \<longrightarrow> api_admin_approve db sid = (AdminServerError, db)"
    by (simp add: api_admin_approve_effect)
  have others: "\<forall>k. k \<noteq> sid \<longrightarrow>
         select_access_request (snd (api_admin_approve db sid)) k = select_access_request db k"
    by (intro allI impI) (rule select_other_after_approve)
  have noop: "\<forall>r. reachable db \<and> first_row (select_access_request db sid) = Some r
            \<and> ar_status r = ''APPROVED'' \<longrightarrow>
          snd (api_admin_approve db sid) = db"
    by (intro allI impI, elim conjE) (rule approve_approved)
  show ?thesis by (intro conjI sets refused others approve_twice noop)
qed

theorem approve_sets_and_is_idempotent_witness:
  "pg_int4 1
   \<and> select_access_request (snd (api_admin_reject demo_bound 1 ''late payment'')) 1 =
     [\<lparr>ar_student_id = 1, ar_device_id = ''phone-1'', ar_status = ''REJECTED'',
       ar_message = Some ''late payment'', ar_request_date = 20\<rparr>]
   \<and> select_access_request
       (snd (api_admin_approve (snd (api_admin_reject demo_bound 1 ''late payment'')) 1)) 1 =
     [\<lparr>ar_student_id = 1, ar_device_id = ''phone-1'', ar_status = ''APPROVED'',
       ar_message = None, ar_request_date = 20\<rparr>]
   \<and> reachable (snd (api_admin_approve demo_bound 1))
   \<and> first_row (select_access_request (snd (api_admin_approve demo_bound 1)) 1) =
       Some \<lparr>ar_student_id = 1, ar_device_id = ''phone-1'', ar_status = ''APPROVED'',
         ar_message = None, ar_request_date = 20\<rparr>
   \<and> snd (api_admin_approve (snd (api_admin_approve demo_bound 1)) 1) =
       snd (api_admin_approve demo_bound 1)
   \<and> \<not> pg_int4 2147483648
   \<and> api_admin_approve demo_bound 2147483648 = (AdminServerError, demo_bound)"
proof -
  let ?rej = "snd (api_admin_reject demo_bound 1 ''late payment'')"
  let ?app = "snd (api_admin_approve demo_bound 1)"
  let ?r = "\<lparr>ar_student_id = 1, ar_device_id = ''phone-1'', ar_status = ''APPROVED'',
         ar_message = None, ar_request_date = 20\<rparr>"
  have i: "pg_int4 1" by (simp add: pg_int4_def)
  have a: "select_access_request ?rej 1 =
     [\<lparr>ar_student_id = 1, ar_device_id = ''phone-1'', ar_status = ''REJECTED'',
       ar_message = Some ''late payment'', ar_request_date = 20\<rparr>]"
    by (simp add: api_admin_reject_def update_rejected_def demo_bound_defs)
  from approve_sets_and_is_idempotent [of 1 ?rej, THEN conjunct1, rule_format, OF i,
      THEN conjunct2]
  have b: "select_access_request (snd (api_admin_approve ?rej 1)) 1 = [?r]"
    by (simp add: a)
  have c: "reachable ?app"
    using reachable_serve [OF demo_bound_reachable, of "AdminApprove 1"] by simp
  have d: "first_row (select_access_request ?app 1) = Some ?r"
    by (simp add: api_admin_approve_def update_approved_def demo_bound_defs)
  have e: "ar_status ?r = ''APPROVED''" by simp
  have cde: "reachable ?app \<and> first_row (select_access_request ?app 1) = Some ?r
      \<and> ar_status ?r = ''APPROVED''"
    by (intro conjI c d e)
  from approve_sets_and_is_idempotent [of 1 ?app, THEN conjunct2, THEN conjunct2,
      THEN conjunct2, THEN conjunct2, rule_format, OF cde]
  have f: "snd (api_admin_approve ?app 1) = ?app" .
  have g: "\<not> pg_int4 2147483648" by (simp add: pg_int4_def)
  from approve_sets_and_is_idempotent [of 2147483648 demo_bound, THEN conjunct2,
      THEN conjunct1, rule_format, OF g]
  have h: "api_admin_approve demo_bound 2147483648 = (AdminServerError, demo_bound)" .
  show ?thesis by (intro conjI i a b c d f g h)
qed

text \<open>
  Claim C8, for the parameters PostgreSQL accepts. For a student id with no row in
  \<^verbatim>\<open>access_requests\<close> that is an \<^verbatim>\<open>INTEGER\<close> value, the \<^verbatim>\<open>UPDATE\<close> of the approval,
  and that of the rejection with a reason that is a \<^verbatim>\<open>TEXT\<close> value, touch zero rows,
  the database after either request is the database before it (so no row is created),
  and both answer with \<^verbatim>\<open>success: true\<close>. With an id outside \<^verbatim>\<open>INTEGER\<close>, or a reason
  that holds the byte 0x00, the statement is refused and the answer is
  \<^verbatim>\<open>success: false\<close> with HTTP status 500, the database again unchanged.
\<close>

theorem admin_update_without_request:
  assumes "select_access_request db sid = []"
  shows "(pg_int4 sid \<longrightarrow>
            update_approved db sid = Inr (0, db)
            \<and> api_admin_approve db sid = (AdminSuccess, db))
       \<and> (pg_int4 sid \<and> pg_text reason \<longrightarrow>
            update_rejected db reason sid = Inr (0, db)
            \<and> api_admin_reject db sid reason = (AdminSuccess, db))
       \<and> (\<not> pg_int4 sid \<longrightarrow>
            api_admin_approve db sid = (AdminServerError, db)
            \<and> api_admin_reject db sid reason = (AdminServerError, db))
       \<and> (\<not> pg_text reason \<longrightarrow>
            api_admin_reject db sid reason = (AdminServerError, db))"
proof -
  from assms have none: "\<forall>r\<in>set (access_requests db). ar_student_id r \<noteq> sid"
    by (simp add: select_access_request_def filter_empty_conv)
  have count: "length (filter (\<lambda>r. ar_student_id r = sid) (access_requests db)) = 0"
    using assms by (simp add: select_access_request_def)
  have same: "map (\<lambda>r. if ar_student_id r = sid then r\<lparr>ar_status := s, ar_message := m\<rparr> else r)
          (access_requests db) = access_requests db" for s m
    using none by (intro map_idI) simp
  have a: "pg_int4 sid \<longrightarrow>
            update_approved db sid = Inr (0, db)
            \<and> api_admin_approve db sid = (AdminSuccess, db)"
    using count same by (simp add: update_approved_def api_admin_approve_def)
  have b: "pg_int4 sid \<and> pg_text reason \<longrightarrow>
            update_rejected db reason sid = Inr (0, db)
            \<and> api_admin_reject db sid reason = (AdminSuccess, db)"
    using count same by (simp add: update_rejected_def api_admin_reject_def)
  have c: "\<not> pg_int4 sid \<longrightarrow>
            api_admin_approve db sid = (AdminServerError, db)
            \<and> api_admin_reject db sid reason = (AdminServerError, db)"
    by (simp add: api_admin_approve_effect api_admin_reject_effect)
  have d: "\<not> pg_text reason \<longrightarrow>
            api_admin_reject db sid reason = (AdminServerError, db)"
    by (simp add: api_admin_reject_effect)
  show ?thesis by (intro conjI a b c d)
qed

theorem admin_update_without_request_witness:
  "select_access_request demo_bound 2 = []
   \<and> access_requests demo_bound \<noteq> []
   \<and> pg_int4 2 \<and> pg_text ''late payment''
   \<and> update_approved demo_bound 2 = Inr (0, demo_bound)
   \<and> api_admin_approve demo_bound 2 = (AdminSuccess, demo_bound)
   \<and> update_rejected demo_bound ''late payment'' 2 = Inr (0, demo_bound)
   \<and> api_admin_reject demo_bound 2 ''late payment'' = (AdminSuccess, demo_bound)"
proof -
  have h: "select_access_request demo_bound 2 = []"
    by (simp add: demo_bound_defs)
  have n: "access_requests demo_bound \<noteq> []"
    by (simp add: demo_bound_def)
  have i: "pg_int4 2" by (simp add: pg_int4_def)
  have p: "pg_text ''late payment''" by (simp add: pg_text_def)
  have ip: "pg_int4 2 \<and> pg_text ''late payment''" using i p by (rule conjI)
  note t = admin_update_without_request [OF h, of "''late payment''"]
  note a = t [THEN conjunct1, rule_format, OF i]
  note b = t [THEN conjunct2, THEN conjunct1, rule_format, OF ip]
  show ?thesis
    by (intro conjI h n i p a [THEN conjunct1] a [THEN conjunct2]
        b [THEN conjunct1] b [THEN conjunct2])
qed

text \<open>
  The claim with every reason and every id: Bilal, the student 2 of the small database,
  has no access request, and his rejection with a reason that holds the byte 0x00 is
  answered with HTTP status 500, as is the approval of the id 2147483648, which has
  no row either.
\<close>

theorem admin_update_without_request_counterexample:
  "select_student_by_id demo_bound 2 = Inr [bilal]
   \<and> select_access_request demo_bound 2 = []
   \<and> api_admin_reject demo_bound 2 nul_text = (AdminServerError, demo_bound)
   \<and> select_access_request demo_bound 2147483648 = []
   \<and> api_admin_approve demo_bound 2147483648 = (AdminServerError, demo_bound)"
  by (simp add: api_admin_reject_def update_rejected_def api_admin_approve_def
      update_approved_def nul_text_def demo_bound_defs)

section \<open>Properties of the student's data route\<close>

text \<open>
  Claim C10. The student's data route only reads: for every database and every id,
  of a student or not, the database after the request (the tables \<^verbatim>\<open>students\<close>,
  \<^verbatim>\<open>access_requests\<close>, \<^verbatim>\<open>grades\<close>, \<^verbatim>\<open>absences\<close>, \<^verbatim>\<open>notifications\<close> and the
  counters) is the database before it.
\<close>

theorem my_grades_reads_only: "snd (api_my_grades db studentId) = db"
  by (simp add: api_my_grades_def Let_def split: option.splits sum.splits)

theorem my_grades_reads_only_witness:
  "snd (api_my_grades demo_bound 1) = demo_bound \<and> snd (api_my_grades demo_bound 7) = demo_bound
   \<and> snd (api_my_grades demo_bound 2147483648) = demo_bound"
  using my_grades_reads_only [of demo_bound 1] my_grades_reads_only [of demo_bound 7]
    my_grades_reads_only [of demo_bound 2147483648]
  by simp

text \<open>
  Claim C4. What the route answers for the id of a student is in \<open>api_my_grades_found\<close>:
  the notifications and the absences of the student's code whatever the access status,
  the stored grades and \<^verbatim>\<open>locked: false\<close> exactly when the status of the student's
  request is \<^verbatim>\<open>APPROVED\<close>, and \<^verbatim>\<open>locked: true\<close> with an empty list of grades in every
  other case. The claim's last part does not hold of the code. Amina, the student 1 of
  the small database, has no access request: the answer is locked, but it has no key
  \<^verbatim>\<open>rejected\<close>, because \<^verbatim>\<open>access && access.status === 'REJECTED'\<close> is \<^verbatim>\<open>undefined\<close>
  when there is no row; once she has a pending request the same expression gives
  \<^verbatim>\<open>rejected: false\<close>.
\<close>

theorem my_grades_without_request:
  "select_student_by_id demo_store 1 = Inr [amina]
   \<and> select_access_status demo_store 1 = Inr []
   \<and> api_my_grades demo_store 1 =
       (ViewData \<lparr>v_locked = True, v_rejected = None, v_reject_reason = Some [],
          v_notifications =
            [(''NOTE'', ''Maths'', ''Nouvelle note'', 13), (''INFO'', ''Rentree'', ''Bienvenue'', 12)],
          v_absences = [(''2024-01-10'', ''Malade'')], v_grades = []\<rparr>, demo_store)
   \<and> api_my_grades demo_bound 1 =
       (ViewData \<lparr>v_locked = True, v_rejected = Some False, v_reject_reason = Some [],
          v_notifications =
            [(''NOTE'', ''Maths'', ''Nouvelle note'', 13), (''INFO'', ''Rentree'', ''Bienvenue'', 12)],
          v_absences = [(''2024-01-10'', ''Malade'')], v_grades = []\<rparr>, demo_bound)"
proof -
  have a: "select_student_by_id demo_store 1 = Inr [amina]"
    by (simp add: demo_defs)
  have a': "select_student_by_id demo_bound 1 = Inr [amina]"
    by (simp add: demo_bound_defs)
  have b: "select_access_status demo_store 1 = Inr []"
    by (simp add: demo_defs)
  have f: "first_row [amina] = Some amina" by (simp add: first_row_def)
  have c: "select_access_request demo_store 1 = []"
    by (simp add: demo_defs)
  have c': "select_access_request demo_bound 1 =
      [\<lparr>ar_student_id = 1, ar_device_id = ''phone-1'', ar_status = ''PENDING'',
         ar_message = None, ar_request_date = 20\<rparr>]"
    by (simp add: demo_bound_defs)
  have d: "select_absences demo_store ''AB-1234'' = [(''2024-01-10'', ''Malade'')]"
    by (simp add: demo_defs)
  have d': "select_absences demo_bound ''AB-1234'' = [(''2024-01-10'', ''Malade'')]"
    by (simp add: demo_bound_defs)
  have n': "select_notifications demo_bound ''AB-1234'' =
     [(''NOTE'', ''Maths'', ''Nouvelle note'', 13), (''INFO'', ''Rentree'', ''Bienvenue'', 12)]"
    by (simp add: select_notifications_def demo_bound_def demo_store_def)
  have e: "s_code amina = ''AB-1234''" by (simp add: amina_def)
  have v: "api_my_grades demo_store 1 =
       (ViewData \<lparr>v_locked = True, v_rejected = None, v_reject_reason = Some [],
          v_notifications =
            [(''NOTE'', ''Maths'', ''Nouvelle note'', 13), (''INFO'', ''Rentree'', ''Bienvenue'', 12)],
          v_absences = [(''2024-01-10'', ''Malade'')], v_grades = []\<rparr>, demo_store)"
    unfolding api_my_grades_found [OF a f]
    by (simp add: c d e demo_notifications first_row_def js_message_or_empty_def)
  have v': "api_my_grades demo_bound 1 =
       (ViewData \<lparr>v_locked = True, v_rejected = Some False, v_reject_reason = Some [],
          v_notifications =
            [(''NOTE'', ''Maths'', ''Nouvelle note'', 13), (''INFO'', ''Rentree'', ''Bienvenue'', 12)],
          v_absences = [(''2024-01-10'', ''Malade'')], v_grades = []\<rparr>, demo_bound)"
    unfolding api_my_grades_found [OF a' f]
    by (simp add: c' d' e n' first_row_def js_message_or_empty_def)
  show ?thesis by (intro conjI a b v v')
qed

section \<open>Properties of two logins at the same time\<close>

text \<open>
  Claim C2, as the code has it. Two clients log in for the first time with the same
  code, which resolves to a student without access request, from two different devices
  whose ids are \<^verbatim>\<open>TEXT\<close> values, their statements interleaved in any order. At every
  moment the student has at most one row in \<^verbatim>\<open>access_requests\<close>. When both have their
  response, exactly one of them has inserted its row and has the pending answer, and
  the other was turned away, with the device-mismatch failure or with the server error
  of the \<^verbatim>\<open>catch\<close> block. Which of the two it is depends on where the other client is
  at a moment when the winner has its answer: if its lookup of \<^verbatim>\<open>access_requests\<close> is
  still to come, it finds the winner's row and is answered with the device mismatch; if
  that lookup is behind it and it stands before its own \<^verbatim>\<open>INSERT\<close>, the \<^verbatim>\<open>INSERT\<close>
  hits the primary key and it is answered with the server error. And both do get their
  response once each has had three turns.
\<close>

theorem racing_first_logins:
  assumes "select_student_by_code db code = Inr rows"
      and "first_row rows = Some student"
      and "select_access_request db (s_id student) = []"
      and "c_device_id c1 \<noteq> c_device_id c2"
      and "pg_text (c_device_id c1)"
      and "pg_text (c_device_id c2)"
  shows "(\<forall>schedule t1 t2 db'.
            race_run code c1 c2 schedule (SelectStudent, SelectStudent, db) = (t1, t2, db') \<longrightarrow>
            length (select_access_request db' (s_id student)) \<le> 1
            \<and> (\<forall>r1 r2. t1 = Responded r1 \<and> t2 = Responded r2 \<longrightarrow>
                  (r1 = pending_answer student code
                   \<and> db' = bind_device db (s_id student) (c_device_id c1) (c_now c1)
                   \<and> (r2 = LoginFailure msg_device_mismatch
                        \<or> r2 = LoginServerError msg_login_error))
                  \<or> (r2 = pending_answer student code
                      \<and> db' = bind_device db (s_id student) (c_device_id c2) (c_now c2)
                      \<and> (r1 = LoginFailure msg_device_mismatch
                           \<or> r1 = LoginServerError msg_login_error))))
       \<and> (\<forall>before after t db1 t' r db'.
            race_run code c1 c2 before (SelectStudent, SelectStudent, db) =
              (Responded (pending_answer student code), t, db1)
            \<and> race_run code c1 c2 after (Responded (pending_answer student code), t, db1) =
              (t', Responded r, db') \<longrightarrow>
            (t = SelectStudent \<or> t = SelectRequest student \<longrightarrow>
               r = LoginFailure msg_device_mismatch)
            \<and> (t = InsertRequest student \<longrightarrow> r = LoginServerError msg_login_error))
       \<and> (\<forall>before after t db1 t' r db'.
            race_run code c1 c2 before (SelectStudent, SelectStudent, db) =
              (t, Responded (pending_answer student code), db1)
            \<and> race_run code c1 c2 after (t, Responded (pending_answer student code), db1) =
              (Responded r, t', db') \<longrightarrow>
            (t = SelectStudent \<or> t = SelectRequest student \<longrightarrow>
               r = LoginFailure msg_device_mismatch)
            \<and> (t = InsertRequest student \<longrightarrow> r = LoginServerError msg_login_error))
       \<and> (\<forall>schedule. 3 \<le> length (filter (\<lambda>b. b) schedule)
              \<and> 3 \<le> length (filter (\<lambda>b. \<not> b) schedule) \<longrightarrow>
            (\<exists>r1 r2 db'. race_run code c1 c2 schedule (SelectStudent, SelectStudent, db) =
                 (Responded r1, Responded r2, db')))"
proof -
  note resolve = assms(1,2) and fresh = assms(3) and differ = assms(4)
  note inv_run = race_inv_run [OF assms race_inv_init]
  have answers: "pending_answer student code \<noteq> LoginFailure msg_device_mismatch"
    "pending_answer student code \<noteq> LoginServerError msg_login_error"
    by (simp_all add: pending_answer_def)
  have safe: "\<forall>schedule t1 t2 db'.
            race_run code c1 c2 schedule (SelectStudent, SelectStudent, db) = (t1, t2, db') \<longrightarrow>
            length (select_access_request db' (s_id student)) \<le> 1
            \<and> (\<forall>r1 r2. t1 = Responded r1 \<and> t2 = Responded r2 \<longrightarrow>
                  (r1 = pending_answer student code
                   \<and> db' = bind_device db (s_id student) (c_device_id c1) (c_now c1)
                   \<and> (r2 = LoginFailure msg_device_mismatch
                        \<or> r2 = LoginServerError msg_login_error))
                  \<or> (r2 = pending_answer student code
                      \<and> db' = bind_device db (s_id student) (c_device_id c2) (c_now c2)
                      \<and> (r1 = LoginFailure msg_device_mismatch
                           \<or> r1 = LoginServerError msg_login_error)))"
  proof (intro allI impI conjI)
    fix schedule t1 t2 db'
    assume run: "race_run code c1 c2 schedule (SelectStudent, SelectStudent, db) = (t1, t2, db')"
    from inv_run [of schedule]
    have inv: "race_inv db code student c1 c2 (t1, t2, db')" by (simp add: run)
    show "length (select_access_request db' (s_id student)) \<le> 1"
      using inv fresh unfolding race_inv_def Let_def by auto
    fix r1 r2
    assume both: "t1 = Responded r1 \<and> t2 = Responded r2"
    show "(r1 = pending_answer student code
                   \<and> db' = bind_device db (s_id student) (c_device_id c1) (c_now c1)
                   \<and> (r2 = LoginFailure msg_device_mismatch
                        \<or> r2 = LoginServerError msg_login_error))
                  \<or> (r2 = pending_answer student code
                      \<and> db' = bind_device db (s_id student) (c_device_id c2) (c_now c2)
                      \<and> (r1 = LoginFailure msg_device_mismatch
                           \<or> r1 = LoginServerError msg_login_error))"
      using inv both unfolding race_inv_def Let_def by auto
  qed
  have first_wins: "(t = SelectStudent \<or> t = SelectRequest student \<longrightarrow>
               r = LoginFailure msg_device_mismatch)
            \<and> (t = InsertRequest student \<longrightarrow> r = LoginServerError msg_login_error)"
    if pre: "race_run code c1 c2 before (SelectStudent, SelectStudent, db) =
              (Responded (pending_answer student code), t, db1)"
    and post: "race_run code c1 c2 after (Responded (pending_answer student code), t, db1) =
              (t', Responded r, db')"
    for before after t db1 t' r db'
  proof -
    from inv_run [of before]
    have inv: "race_inv db code student c1 c2 (Responded (pending_answer student code), t, db1)"
      by (simp add: pre)
    then have db1: "db1 = bind_device db (s_id student) (c_device_id c1) (c_now c1)"
      using answers unfolding race_inv_def Let_def by auto
    show ?thesis
    proof (intro conjI impI)
      assume "t = SelectStudent \<or> t = SelectRequest student"
      then have "t \<in> {SelectStudent, SelectRequest student,
               Responded (LoginFailure msg_device_mismatch)}" by auto
      from loser_second_late [where schedule = after and answer = "pending_answer student code",
          OF resolve fresh differ this] post db1
      show "r = LoginFailure msg_device_mismatch" by auto
    next
      assume "t = InsertRequest student"
      then have "t \<in> {InsertRequest student, Responded (LoginServerError msg_login_error)}"
        by simp
      from loser_second_early [where schedule = after and answer = "pending_answer student code",
          OF resolve fresh differ this] post db1
      show "r = LoginServerError msg_login_error" by auto
    qed
  qed
  have second_wins: "(t = SelectStudent \<or> t = SelectRequest student \<longrightarrow>
               r = LoginFailure msg_device_mismatch)
            \<and> (t = InsertRequest student \<longrightarrow> r = LoginServerError msg_login_error)"
    if pre: "race_run code c1 c2 before (SelectStudent, SelectStudent, db) =
              (t, Responded (pending_answer student code), db1)"
    and post: "race_run code c1 c2 after (t, Responded (pending_answer student code), db1) =
              (Responded r, t', db')"
    for before after t db1 t' r db'
  proof -
    from inv_run [of before]
    have inv: "race_inv db code student c1 c2 (t, Responded (pending_answer student code), db1)"
      by (simp add: pre)
    then have db1: "db1 = bind_device db (s_id student) (c_device_id c2) (c_now c2)"
      using answers unfolding race_inv_def Let_def by auto
    show ?thesis
    proof (intro conjI impI)
      assume "t = SelectStudent \<or> t = SelectRequest student"
      then have "t \<in> {SelectStudent, SelectRequest student,
               Responded (LoginFailure msg_device_mismatch)}" by auto
      from loser_first_late [where schedule = after and answer = "pending_answer student code",
          OF resolve fresh differ this] post db1
      show "r = LoginFailure msg_device_mismatch" by auto
    next
      assume "t = InsertRequest student"
      then have "t \<in> {InsertRequest student, Responded (LoginServerError msg_login_error)}"
        by simp
      from loser_first_early [where schedule = after and answer = "pending_answer student code",
          OF resolve fresh differ this] post db1
      show "r = LoginServerError msg_login_error" by auto
    qed
  qed
  have first_wins_all: "\<forall>before after t db1 t' r db'.
            race_run code c1 c2 before (SelectStudent, SelectStudent, db) =
              (Responded (pending_answer student code), t, db1)
            \<and> race_run code c1 c2 after (Responded (pending_answer student code), t, db1) =
              (t', Responded r, db') \<longrightarrow>
            (t = SelectStudent \<or> t = SelectRequest student \<longrightarrow>
               r = LoginFailure msg_device_mismatch)
            \<and> (t = InsertRequest student \<longrightarrow> r = LoginServerError msg_login_error)"
    by (intro allI impI, elim conjE) (rule first_wins)
  have second_wins_all: "\<forall>before after t db1 t' r db'.
            race_run code c1 c2 before (SelectStudent, SelectStudent, db) =
              (t, Responded (pending_answer student code), db1)
            \<and> race_run code c1 c2 after (t, Responded (pending_answer student code), db1) =
              (Responded r, t', db') \<longrightarrow>
            (t = SelectStudent \<or> t = SelectRequest student \<longrightarrow>
               r = LoginFailure msg_device_mismatch)
            \<and> (t = InsertRequest student \<longrightarrow> r = LoginServerError msg_login_error)"
    by (intro allI impI, elim conjE) (rule second_wins)
  have live: "\<forall>schedule. 3 \<le> length (filter (\<lambda>b. b) schedule)
              \<and> 3 \<le> length (filter (\<lambda>b. \<not> b) schedule) \<longrightarrow>
            (\<exists>r1 r2 db'. race_run code c1 c2 schedule (SelectStudent, SelectStudent, db) =
                 (Responded r1, Responded r2, db'))"
  proof (intro allI impI)
    fix schedule
    assume len: "3 \<le> length (filter (\<lambda>b. b) schedule)
              \<and> 3 \<le> length (filter (\<lambda>b. \<not> b) schedule)"
    obtain t1 t2 db' where run:
      "race_run code c1 c2 schedule (SelectStudent, SelectStudent, db) = (t1, t2, db')"
      using race_run_shape by blast
    from len have "task_rank (fst (SelectStudent, SelectStudent, db))
        + length (filter (\<lambda>b. b) schedule) \<ge> 3" by simp
    from race_run_progress1 [OF this, of code c1 c2] run
    have "task_rank t1 = 3" by simp
    then obtain r1 where r1: "t1 = Responded r1" by (auto simp: task_rank_3)
    from len have "task_rank (fst (snd (SelectStudent, SelectStudent, db)))
        + length (filter (\<lambda>b. \<not> b) schedule) \<ge> 3" by simp
    from race_run_progress2 [OF this, of code c1 c2] run
    have "task_rank t2 = 3" by simp
    then obtain r2 where r2: "t2 = Responded r2" by (auto simp: task_rank_3)
    show "\<exists>r1 r2 db'. race_run code c1 c2 schedule (SelectStudent, SelectStudent, db) =
                   (Responded r1, Responded r2, db')"
      using run r1 r2 by blast
  qed
  show ?thesis by (intro conjI safe first_wins_all second_wins_all live)
qed

theorem racing_first_logins_witness:
  "select_student_by_code demo_store ''AB-1234'' = Inr [amina]
   \<and> first_row [amina] = Some amina
   \<and> select_access_request demo_store (s_id amina) = []
   \<and> c_device_id phone1 \<noteq> c_device_id phone2
   \<and> pg_text (c_device_id phone1) \<and> pg_text (c_device_id phone2)
   \<and> race_run ''AB-1234'' phone1 phone2 [True, True, False, True]
       (SelectStudent, SelectStudent, demo_store) =
      (Responded (pending_answer amina ''AB-1234''), SelectRequest amina, demo_bound)
   \<and> race_run ''AB-1234'' phone1 phone2 [False, False]
       (Responded (pending_answer amina ''AB-1234''), SelectRequest amina, demo_bound) =
      (Responded (pending_answer amina ''AB-1234''),
       Responded (LoginFailure msg_device_mismatch), demo_bound)
   \<and> race_run ''AB-1234'' phone1 phone2 [True, False, True, False, True]
       (SelectStudent, SelectStudent, demo_store) =
      (Responded (pending_answer amina ''AB-1234''), InsertRequest amina, demo_bound)
   \<and> race_run ''AB-1234'' phone1 phone2 [False]
       (Responded (pending_answer amina ''AB-1234''), InsertRequest amina, demo_bound) =
      (Responded (pending_answer amina ''AB-1234''),
       Responded (LoginServerError msg_login_error), demo_bound)
   \<and> length (select_access_request demo_bound (s_id amina)) \<le> 1
   \<and> (\<exists>r1 r2 db'. race_run ''AB-1234'' phone1 phone2 [False, False, True, True, False, True]
          (SelectStudent, SelectStudent, demo_store) = (Responded r1, Responded r2, db'))"
proof -
  have h1: "select_student_by_code demo_store ''AB-1234'' = Inr [amina]"
    by (simp add: demo_defs)
  have h2: "first_row [amina] = Some amina" by (simp add: first_row_def)
  have h3: "select_access_request demo_store (s_id amina) = []"
    by (simp add: demo_defs)
  have h4: "c_device_id phone1 \<noteq> c_device_id phone2"
    by (simp add: phone1_def phone2_def)
  have h5: "pg_text (c_device_id phone1)" by (simp add: phone1_def pg_text_def)
  have h6: "pg_text (c_device_id phone2)" by (simp add: phone2_def pg_text_def)
  note t = racing_first_logins [OF h1 h2 h3 h4 h5 h6]
  have pre: "race_run ''AB-1234'' phone1 phone2 [True, True, False, True]
       (SelectStudent, SelectStudent, demo_store) =
      (Responded (pending_answer amina ''AB-1234''), SelectRequest amina, demo_bound)"
    by (simp add: race_demo_defs pending_answer_def)
  have post': "race_run ''AB-1234'' phone1 phone2 [False, False]
       (Responded (pending_answer amina ''AB-1234''), SelectRequest amina, demo_bound) =
      (Responded (pending_answer amina ''AB-1234''),
       Responded (LoginFailure msg_device_mismatch), demo_bound)"
    by (simp add: race_demo_defs pending_answer_def)
  have early: "race_run ''AB-1234'' phone1 phone2 [True, False, True, False, True]
       (SelectStudent, SelectStudent, demo_store) =
      (Responded (pending_answer amina ''AB-1234''), InsertRequest amina, demo_bound)"
    by (simp add: race_demo_defs pending_answer_def)
  have early': "race_run ''AB-1234'' phone1 phone2 [False]
       (Responded (pending_answer amina ''AB-1234''), InsertRequest amina, demo_bound) =
      (Responded (pending_answer amina ''AB-1234''),
       Responded (LoginServerError msg_login_error), demo_bound)"
    by (simp add: race_demo_defs pending_answer_def)
  from t [THEN conjunct1, rule_format, OF pre, THEN conjunct1]
  have one: "length (select_access_request demo_bound (s_id amina)) \<le> 1" .
  have "3 \<le> length (filter (\<lambda>b. b) [False, False, True, True, False, True])
        \<and> 3 \<le> length (filter (\<lambda>b. \<not> b) [False, False, True, True, False, True])"
    by simp
  from t [THEN conjunct2, THEN conjunct2, THEN conjunct2, rule_format, OF this]
  have fin: "\<exists>r1 r2 db'. race_run ''AB-1234'' phone1 phone2 [False, False, True, True, False, True]
          (SelectStudent, SelectStudent, demo_store) = (Responded r1, Responded r2, db')" .
  show ?thesis by (intro conjI h1 h2 h3 h4 h5 h6 pre post' early early' one fin)
qed

text \<open>
  The interleaving in which both clients read \<^verbatim>\<open>access_requests\<close> before either
  inserts: the second client is not re-evaluated against the row of the first, its
  \<^verbatim>\<open>INSERT\<close> fails and it gets the server error.
\<close>

theorem racing_first_logins_counterexample:
  "race_run ''AB-1234'' phone1 phone2 [True, False, True, False, True, False]
     (SelectStudent, SelectStudent, demo_store) =
   (Responded (LoginSuccess \<lparr>ls_id = 1, ls_full_name = ''Amina'',
       ls_secret_code = ''AB-1234'', ls_status = ''PENDING'', ls_message = None\<rparr>),
    Responded (LoginServerError msg_login_error),
    demo_bound)
   \<and> LoginServerError msg_login_error \<noteq> LoginFailure msg_device_mismatch"
  by (simp add: race_demo_defs)

end
